theory Spec2Isabelle
  imports Main "HOL-Library.Sublist"
begin

section \<open>Values, objects and calls\<close>

text \<open>
  The program is the notebook \<^verbatim>\<open>examples/basics/Auto-PyTorch Tutorial.ipynb\<close>: fifteen
  code cells of straight-line Python that call autoPyTorch, openml, numpy, pandas, os and
  json. The cells are run top to bottom in one kernel; a cell that raises stops the run.

  Python values are references. Scalars and the lists and dictionaries the notebook
  writes as displays are modelled by value; every object that a library hands out is a
  reference \<open>Ref a\<close> into a heap. An exception raised inside a library is \<open>Raised\<close> with
  the name of its class; the other exceptions are raised by the interpreter or by numpy's
  indexing.
\<close>

text \<open>
  The identifiers of the notebook: module names, global names, attribute and method
  names, keyword names and the two builtins. \<open>file'\<close>, \<open>open'\<close> and \<open>values'\<close> are Python's
  \<^verbatim>\<open>file\<close>, \<^verbatim>\<open>open\<close> and \<^verbatim>\<open>values\<close>; \<open>dunder_enter\<close>, \<open>dunder_exit\<close>, \<open>dunder_getitem\<close>
  and \<open>dunder_iter\<close> are \<^verbatim>\<open>__enter__\<close>, \<^verbatim>\<open>__exit__\<close>, \<^verbatim>\<open>__getitem__\<close> and \<^verbatim>\<open>__iter__\<close>.
\<close>

datatype ident = Id nat

abbreviation autoPyTorch :: ident where "autoPyTorch \<equiv> Id 0"
abbreviation pandas :: ident where "pandas \<equiv> Id 1"
abbreviation numpy :: ident where "numpy \<equiv> Id 2"
abbreviation os :: ident where "os \<equiv> Id 3"
abbreviation openml :: ident where "openml \<equiv> Id 4"
abbreviation json :: ident where "json \<equiv> Id 5"
abbreviation AutoNetClassification :: ident where "AutoNetClassification \<equiv> Id 6"
abbreviation AutoNetMultilabel :: ident where "AutoNetMultilabel \<equiv> Id 7"
abbreviation AutoNetRegression :: ident where "AutoNetRegression \<equiv> Id 8"
abbreviation AutoNetImageClassification :: ident where "AutoNetImageClassification \<equiv> Id 9"
abbreviation AutoNetImageClassificationMultipleDatasets :: ident where "AutoNetImageClassificationMultipleDatasets \<equiv> Id 10"
abbreviation pd :: ident where "pd \<equiv> Id 11"
abbreviation np :: ident where "np \<equiv> Id 12"
abbreviation autonet :: ident where "autonet \<equiv> Id 13"
abbreviation current_configuration :: ident where "current_configuration \<equiv> Id 14"
abbreviation hyperparameter_search_space :: ident where "hyperparameter_search_space \<equiv> Id 15"
abbreviation task :: ident where "task \<equiv> Id 16"
abbreviation X :: ident where "X \<equiv> Id 17"
abbreviation y :: ident where "y \<equiv> Id 18"
abbreviation ind_train :: ident where "ind_train \<equiv> Id 19"
abbreviation ind_test :: ident where "ind_test \<equiv> Id 20"
abbreviation X_train :: ident where "X_train \<equiv> Id 21"
abbreviation Y_train :: ident where "Y_train \<equiv> Id 22"
abbreviation X_test :: ident where "X_test \<equiv> Id 23"
abbreviation Y_test :: ident where "Y_test \<equiv> Id 24"
abbreviation results_fit :: ident where "results_fit \<equiv> Id 25"
abbreviation file' :: ident where "file' \<equiv> Id 26"
abbreviation autonet_config :: ident where "autonet_config \<equiv> Id 27"
abbreviation hyperparameter_config :: ident where "hyperparameter_config \<equiv> Id 28"
abbreviation results_refit :: ident where "results_refit \<equiv> Id 29"
abbreviation score :: ident where "score \<equiv> Id 30"
abbreviation pred :: ident where "pred \<equiv> Id 31"
abbreviation pytorch_model :: ident where "pytorch_model \<equiv> Id 32"
abbreviation autonet_image_classification :: ident where "autonet_image_classification \<equiv> Id 33"
abbreviation autonet_multi_image_classification :: ident where "autonet_multi_image_classification \<equiv> Id 34"
abbreviation csv_dir :: ident where "csv_dir \<equiv> Id 35"
abbreviation df :: ident where "df \<equiv> Id 36"
abbreviation path_to_cifar_csv :: ident where "path_to_cifar_csv \<equiv> Id 37"
abbreviation get_current_autonet_config :: ident where "get_current_autonet_config \<equiv> Id 38"
abbreviation get_hyperparameter_search_space :: ident where "get_hyperparameter_search_space \<equiv> Id 39"
abbreviation tasks :: ident where "tasks \<equiv> Id 40"
abbreviation get_task :: ident where "get_task \<equiv> Id 41"
abbreviation get_X_and_y :: ident where "get_X_and_y \<equiv> Id 42"
abbreviation get_train_test_split_indices :: ident where "get_train_test_split_indices \<equiv> Id 43"
abbreviation fit :: ident where "fit \<equiv> Id 44"
abbreviation refit :: ident where "refit \<equiv> Id 45"
abbreviation predict :: ident where "predict \<equiv> Id 46"
abbreviation get_pytorch_model :: ident where "get_pytorch_model \<equiv> Id 47"
abbreviation sample_configuration :: ident where "sample_configuration \<equiv> Id 48"
abbreviation get_dictionary :: ident where "get_dictionary \<equiv> Id 49"
abbreviation dump :: ident where "dump \<equiv> Id 50"
abbreviation path :: ident where "path \<equiv> Id 51"
abbreviation abspath :: ident where "abspath \<equiv> Id 52"
abbreviation array :: ident where "array \<equiv> Id 53"
abbreviation read_csv :: ident where "read_csv \<equiv> Id 54"
abbreviation values' :: ident where "values' \<equiv> Id 55"
abbreviation dunder_exit :: ident where "dunder_exit \<equiv> Id 56"
abbreviation dunder_getitem :: ident where "dunder_getitem \<equiv> Id 57"
abbreviation open' :: ident where "open' \<equiv> Id 58"
abbreviation print :: ident where "print \<equiv> Id 59"
abbreviation config_preset :: ident where "config_preset \<equiv> Id 60"
abbreviation result_logger_dir :: ident where "result_logger_dir \<equiv> Id 61"
abbreviation task_id :: ident where "task_id \<equiv> Id 62"
abbreviation validation_split :: ident where "validation_split \<equiv> Id 63"
abbreviation max_runtime :: ident where "max_runtime \<equiv> Id 64"
abbreviation min_budget :: ident where "min_budget \<equiv> Id 65"
abbreviation max_budget :: ident where "max_budget \<equiv> Id 66"
abbreviation budget_type :: ident where "budget_type \<equiv> Id 67"
abbreviation log_level :: ident where "log_level \<equiv> Id 68"
abbreviation use_tensorboard_logger :: ident where "use_tensorboard_logger \<equiv> Id 69"
abbreviation X_valid :: ident where "X_valid \<equiv> Id 70"
abbreviation Y_valid :: ident where "Y_valid \<equiv> Id 71"
abbreviation budget :: ident where "budget \<equiv> Id 72"
abbreviation header :: ident where "header \<equiv> Id 73"
abbreviation images_shape :: ident where "images_shape \<equiv> Id 74"
abbreviation save_checkpoints :: ident where "save_checkpoints \<equiv> Id 75"
abbreviation images_root_folders :: ident where "images_root_folders \<equiv> Id 76"
abbreviation default_dataset_download_dir :: ident where "default_dataset_download_dir \<equiv> Id 77"
abbreviation dunder_enter :: ident where "dunder_enter \<equiv> Id 78"
abbreviation dunder_iter :: ident where "dunder_iter \<equiv> Id 79"

datatype exn = NameError ident | TypeError | ValueError | IndexError | Raised string

datatype val =
    NoneV
  | BoolV bool
  | IntV int
  | FloatV string
  | StrV string
  | ListV "val list"
  | TupleV "val list"
  | DictV "(ident \<times> val) list"
  | SliceV "int option" "int option"
  | ExcV exn
  | Ref nat

text \<open>
  \<open>FloatV\<close> holds the text of a float literal (\<^verbatim>\<open>0.3\<close>, \<^verbatim>\<open>0.0\<close>): the notebook does no
  arithmetic on floats. A numpy array is its element type, its shape and its items along
  the first axis (the rows of a two-dimensional array are \<open>ListV\<close> values); every other
  library object is opaque.
\<close>

datatype dtype = DInt | DBool | DFloat | DStr | DObject

datatype obj = NDArray dtype "nat list" "val list" | Opaque

text \<open>
  The operations the notebook hands to an object, a module or a builtin: an import, an
  attribute read, a call, a subscript, the iteration of an unpacking, and the entry and
  the exit of a \<^verbatim>\<open>with\<close> statement.
\<close>

datatype kind = Import | GetAttr | Call | GetItem | Iter | Enter | Exit

text \<open>
  One such operation: \<open>root\<close> is the global or builtin name the expression starts with
  (none when it starts with the result of another operation), \<open>attrs\<close> the attribute
  names that follow it, \<open>recv\<close> the object the operation is performed on: the object
  whose attribute is read, the function, method or class that is called, the object that
  is subscripted, iterated, entered or exited.
\<close>

record call =
  kind :: kind
  root :: "ident option"
  attrs :: "ident list"
  recv :: "val option"
  args :: "val list"
  kwargs :: "(ident \<times> val) list"

datatype event = Event (call_of: call) (result: "exn + val")

text \<open>The function, class, method or attribute an operation names: the last name of its expression.\<close>

definition callee :: "call \<Rightarrow> ident option" where
  "callee c = (if attrs c = [] then root c else Some (last (attrs c)))"

record 'x world =
  heap :: "obj list"
  ext :: 'x

text \<open>
  The libraries are a parameter: a function that answers an operation in a world, with a
  value or an exception, and leaves a new world (it may allocate and change any object).
  \<open>ext\<close> is whatever else the libraries keep: files, the network, random seeds.
\<close>

type_synonym 'x library = "call \<Rightarrow> 'x world \<Rightarrow> (exn + val) \<times> 'x world"

record 'x state =
  globals :: "ident \<Rightarrow> val option"
  world :: "'x world"
  trace :: "event list"

type_synonym ('a, 'x) prog = "'x state \<Rightarrow> (exn + 'a) \<times> 'x state"

definition init :: "'x world \<Rightarrow> 'x state" where
  "init w = \<lparr>globals = Map.empty, world = w, trace = []\<rparr>"

section \<open>Statements and expressions\<close>

definition ret :: "'a \<Rightarrow> ('a, 'x) prog" where
  "ret v = (\<lambda>s. (Inr v, s))"

definition raise :: "exn \<Rightarrow> ('a, 'x) prog" where
  "raise e = (\<lambda>s. (Inl e, s))"

definition bnd :: "('a, 'x) prog \<Rightarrow> ('a \<Rightarrow> ('b, 'x) prog) \<Rightarrow> ('b, 'x) prog" where
  "bnd m f = (\<lambda>s. case m s of (Inl e, s') \<Rightarrow> (Inl e, s') | (Inr v, s') \<Rightarrow> f v s')"

text \<open>A computation that touches no state: its result, or the exception it raises.\<close>

definition lift :: "exn + 'a \<Rightarrow> ('a, 'x) prog" where
  "lift r = (\<lambda>s. (r, s))"

definition lit :: "val \<Rightarrow> (val, 'x) prog" where
  "lit v = ret v"

text \<open>Reading a global name that is not bound raises NameError.\<close>

definition name :: "ident \<Rightarrow> (val, 'x) prog" where
  "name x = (\<lambda>s. case globals s x of None \<Rightarrow> (Inl (NameError x), s) | Some v \<Rightarrow> (Inr v, s))"

definition set_global :: "ident \<Rightarrow> val \<Rightarrow> (unit, 'x) prog" where
  "set_global x v = (\<lambda>s. (Inr (), globals_update (\<lambda>g. g(x \<mapsto> v)) s))"

definition assign :: "ident \<Rightarrow> (val, 'x) prog \<Rightarrow> (unit, 'x) prog" where
  "assign x m = bnd m (set_global x)"

text \<open>\<^verbatim>\<open>a, b = e1, e2\<close>: both expressions are evaluated, left to right, then both names bound.\<close>

definition assign2 :: "ident \<Rightarrow> ident \<Rightarrow> (val, 'x) prog \<Rightarrow> (val, 'x) prog \<Rightarrow> (unit, 'x) prog" where
  "assign2 x1 x2 m1 m2 =
     bnd m1 (\<lambda>a. bnd m2 (\<lambda>b. bnd (set_global x1 a) (\<lambda>u. set_global x2 b)))"

primrec eval_args :: "(val, 'x) prog list \<Rightarrow> (val list, 'x) prog" where
  "eval_args [] = ret []"
| "eval_args (m # ms) = bnd m (\<lambda>v. bnd (eval_args ms) (\<lambda>vs. ret (v # vs)))"

primrec eval_kwargs :: "(ident \<times> (val, 'x) prog) list \<Rightarrow> ((ident \<times> val) list, 'x) prog" where
  "eval_kwargs [] = ret []"
| "eval_kwargs (km # kms) =
     bnd (snd km) (\<lambda>v. bnd (eval_kwargs kms) (\<lambda>kvs. ret ((fst km, v) # kvs)))"

definition list_display :: "(val, 'x) prog list \<Rightarrow> (val, 'x) prog" where
  "list_display ms = bnd (eval_args ms) (\<lambda>vs. ret (ListV vs))"

definition dict_display :: "(ident \<times> (val, 'x) prog) list \<Rightarrow> (val, 'x) prog" where
  "dict_display kms = bnd (eval_kwargs kms) (\<lambda>kvs. ret (DictV kvs))"

definition expr_stmt :: "(val, 'x) prog \<Rightarrow> (unit, 'x) prog" where
  "expr_stmt m = bnd m (\<lambda>v. ret ())"

primrec block :: "(unit, 'x) prog list \<Rightarrow> (unit, 'x) prog" where
  "block [] = ret ()"
| "block (m # ms) = bnd m (\<lambda>u. block ms)"

subsection \<open>Operations on objects\<close>

text \<open>
  Every operation is logged, with its answer, in the trace. An operation on a library
  object is answered by the library; an operation whose answer the interpreter or numpy
  fixes (below: unpacking a tuple, indexing an array) is answered here. (\<open>trace_update f s\<close>
  is \<open>s\<close> with \<open>f\<close> applied to its trace, and likewise for the other fields.)
\<close>

definition extern :: "'x library \<Rightarrow> call \<Rightarrow> (val, 'x) prog" where
  "extern L c = (\<lambda>s. case L c (world s) of
       (r, w) \<Rightarrow> (r, trace_update (\<lambda>t. t @ [Event c r]) (s\<lparr>world := w\<rparr>)))"

definition answered :: "call \<Rightarrow> exn + val \<Rightarrow> (val, 'x) prog" where
  "answered c r = (\<lambda>s. (r, trace_update (\<lambda>t. t @ [Event c r]) s))"

text \<open>
  \<^verbatim>\<open>base.a1.a2\<close>: the attributes are read one after the other, each from the object the
  one before gave. Reading an attribute is an operation of its own: the object may not
  have it, and then nothing that follows in the expression is evaluated.
\<close>

definition attr_call :: "ident option \<Rightarrow> ident list \<Rightarrow> val \<Rightarrow> call" where
  "attr_call b ats r =
     \<lparr>kind = GetAttr, root = b, attrs = ats, recv = Some r, args = [], kwargs = []\<rparr>"

primrec resolve ::
  "'x library \<Rightarrow> ident option \<Rightarrow> ident list \<Rightarrow> ident list \<Rightarrow> val \<Rightarrow> (val, 'x) prog" where
  "resolve L b seen [] r = ret r"
| "resolve L b seen (a # rest) r =
     bnd (extern L (attr_call b (seen @ [a]) r)) (resolve L b (seen @ [a]) rest)"

text \<open>
  \<^verbatim>\<open>base.a1.a2(args, k=v, ...)\<close>: the callee is looked up first (the name, then its
  attributes), then the arguments are evaluated left to right, then the call is made.
\<close>

definition global_call ::
  "ident \<Rightarrow> ident list \<Rightarrow> val \<Rightarrow> val list \<Rightarrow> (ident \<times> val) list \<Rightarrow> call" where
  "global_call base ats f vs kvs =
     \<lparr>kind = Call, root = Some base, attrs = ats, recv = Some f, args = vs, kwargs = kvs\<rparr>"

definition call_global ::
  "'x library \<Rightarrow> ident \<Rightarrow> ident list \<Rightarrow> (val, 'x) prog list \<Rightarrow>
   (ident \<times> (val, 'x) prog) list \<Rightarrow> (val, 'x) prog" where
  "call_global L base ats ms kms =
     bnd (name base) (\<lambda>r. bnd (resolve L (Some base) [] ats r) (\<lambda>f.
     bnd (eval_args ms) (\<lambda>vs. bnd (eval_kwargs kms) (\<lambda>kvs.
       extern L (global_call base ats f vs kvs)))))"

text \<open>\<^verbatim>\<open>base(**d)\<close>: the keyword arguments are the entries of the dictionary bound to \<open>d\<close>.\<close>

fun dict_items :: "val \<Rightarrow> exn + (ident \<times> val) list" where
  "dict_items (DictV kvs) = Inr kvs"
| "dict_items v = Inl TypeError"

definition call_star :: "'x library \<Rightarrow> ident \<Rightarrow> ident \<Rightarrow> (val, 'x) prog" where
  "call_star L base d =
     bnd (name base) (\<lambda>f. bnd (name d) (\<lambda>v. bnd (lift (dict_items v)) (\<lambda>kvs.
       extern L (global_call base [] f [] kvs))))"

text \<open>\<^verbatim>\<open>e.meth(args)\<close> where \<open>e\<close> is itself a call.\<close>

definition method_call :: "ident \<Rightarrow> val \<Rightarrow> val list \<Rightarrow> (ident \<times> val) list \<Rightarrow> call" where
  "method_call meth f vs kvs =
     \<lparr>kind = Call, root = None, attrs = [meth], recv = Some f, args = vs, kwargs = kvs\<rparr>"

definition call_method ::
  "'x library \<Rightarrow> (val, 'x) prog \<Rightarrow> ident \<Rightarrow> (val, 'x) prog list \<Rightarrow>
   (ident \<times> (val, 'x) prog) list \<Rightarrow> (val, 'x) prog" where
  "call_method L m meth ms kms =
     bnd m (\<lambda>r. bnd (resolve L None [] [meth] r) (\<lambda>f.
     bnd (eval_args ms) (\<lambda>vs. bnd (eval_kwargs kms) (\<lambda>kvs.
       extern L (method_call meth f vs kvs)))))"

text \<open>The builtins \<^verbatim>\<open>open\<close> and \<^verbatim>\<open>print\<close>: the notebook binds neither name, no global is read.\<close>

definition builtin_call :: "ident \<Rightarrow> val list \<Rightarrow> call" where
  "builtin_call f vs =
     \<lparr>kind = Call, root = Some f, attrs = [], recv = None, args = vs, kwargs = []\<rparr>"

definition call_builtin ::
  "'x library \<Rightarrow> ident \<Rightarrow> (val, 'x) prog list \<Rightarrow> (val, 'x) prog" where
  "call_builtin L f ms = bnd (eval_args ms) (\<lambda>vs. extern L (builtin_call f vs))"

text \<open>\<^verbatim>\<open>base.a\<close> as an expression (\<^verbatim>\<open>df.values\<close>).\<close>

definition attr :: "'x library \<Rightarrow> ident \<Rightarrow> ident \<Rightarrow> (val, 'x) prog" where
  "attr L base a = bnd (name base) (resolve L (Some base) [] [a])"

definition import_call :: "ident \<Rightarrow> call" where
  "import_call m =
     \<lparr>kind = Import, root = Some m, attrs = [], recv = None, args = [], kwargs = []\<rparr>"

definition import_module :: "'x library \<Rightarrow> ident \<Rightarrow> (val, 'x) prog" where
  "import_module L m = extern L (import_call m)"

text \<open>\<^verbatim>\<open>import m as x\<close>\<close>

definition import_as :: "'x library \<Rightarrow> ident \<Rightarrow> ident \<Rightarrow> (unit, 'x) prog" where
  "import_as L m x = assign x (import_module L m)"

text \<open>\<^verbatim>\<open>from m import (n1, n2, ...)\<close>: the module is imported, then each name is read from it.\<close>

definition import_from :: "'x library \<Rightarrow> ident \<Rightarrow> ident list \<Rightarrow> (unit, 'x) prog" where
  "import_from L m ns =
     bnd (import_module L m) (\<lambda>mo.
       block (map (\<lambda>n. assign n (extern L (attr_call (Some m) [n] mo))) ns))"

subsection \<open>Unpacking\<close>

text \<open>
  \<^verbatim>\<open>a, b = e\<close>: the value of \<open>e\<close> is iterated, and the iteration must give exactly two
  items. The items of a tuple, a list and a string are known; None, numbers, slices and
  exceptions cannot be iterated; every other value (a library object, and a dictionary,
  whose keys are not values of this model) is iterated by the library, which answers
  with the tuple of the items.
\<close>

definition iter_call :: "val \<Rightarrow> call" where
  "iter_call v =
     \<lparr>kind = Iter, root = None, attrs = [dunder_iter], recv = Some v, args = [], kwargs = []\<rparr>"

fun items_of :: "val \<Rightarrow> (exn + val) option" where
  "items_of (TupleV vs) = Some (Inr (TupleV vs))"
| "items_of (ListV vs) = Some (Inr (TupleV vs))"
| "items_of (StrV cs) = Some (Inr (TupleV (map (\<lambda>c. StrV [c]) cs)))"
| "items_of (DictV kvs) = None"
| "items_of (Ref a) = None"
| "items_of v = Some (Inl TypeError)"

definition iterate :: "'x library \<Rightarrow> val \<Rightarrow> (val, 'x) prog" where
  "iterate L v =
     (case items_of v of
        None \<Rightarrow> extern L (iter_call v)
      | Some r \<Rightarrow> answered (iter_call v) r)"

fun two_items :: "val \<Rightarrow> exn + val \<times> val" where
  "two_items (TupleV [a, b]) = Inr (a, b)"
| "two_items (ListV [a, b]) = Inr (a, b)"
| "two_items (TupleV vs) = Inl ValueError"
| "two_items (ListV vs) = Inl ValueError"
| "two_items v = Inl TypeError"

definition unpack2 ::
  "'x library \<Rightarrow> ident \<Rightarrow> ident \<Rightarrow> (val, 'x) prog \<Rightarrow> (unit, 'x) prog" where
  "unpack2 L x1 x2 m = bnd m (\<lambda>v. bnd (iterate L v) (\<lambda>r. bnd (lift (two_items r)) (\<lambda>ab.
       bnd (set_global x1 (fst ab)) (\<lambda>u. set_global x2 (snd ab)))))"

subsection \<open>The with statement\<close>

text \<open>
  \<^verbatim>\<open>with open(p, mode) as x: body\<close>. The object that \<^verbatim>\<open>open\<close> returns is entered, and
  what its \<^verbatim>\<open>__enter__\<close> returns is bound to \<open>x\<close>; when \<^verbatim>\<open>__enter__\<close> raises, neither the
  body nor \<^verbatim>\<open>__exit__\<close> is run. After the body the object is exited, whether the body
  raised or not: \<^verbatim>\<open>__exit__\<close> is told of the pending exception (its three arguments are
  one value here) and, as for every file, what it returns does not suppress the
  exception; when \<^verbatim>\<open>__exit__\<close> itself raises, that exception is the one that leaves the
  statement.
\<close>

definition enter_call :: "val \<Rightarrow> call" where
  "enter_call fh =
     \<lparr>kind = Enter, root = None, attrs = [dunder_enter], recv = Some fh, args = [],
      kwargs = []\<rparr>"

definition exit_call :: "val \<Rightarrow> exn + unit \<Rightarrow> call" where
  "exit_call fh r =
     \<lparr>kind = Exit, root = None, attrs = [dunder_exit], recv = Some fh,
      args = [case r of Inl e \<Rightarrow> ExcV e | Inr u \<Rightarrow> NoneV], kwargs = []\<rparr>"

definition finally_exit :: "'x library \<Rightarrow> val \<Rightarrow> (unit, 'x) prog \<Rightarrow> (unit, 'x) prog" where
  "finally_exit L fh body = (\<lambda>s.
     case body s of (r, s1) \<Rightarrow>
       (case extern L (exit_call fh r) s1 of
          (Inl e2, s2) \<Rightarrow> (Inl e2, s2)
        | (Inr v, s2) \<Rightarrow> (r, s2)))"

definition with_open ::
  "'x library \<Rightarrow> val \<Rightarrow> val \<Rightarrow> ident \<Rightarrow> (unit, 'x) prog \<Rightarrow> (unit, 'x) prog" where
  "with_open L p mode x body =
     bnd (call_builtin L open' [lit p, lit mode]) (\<lambda>fh.
     bnd (extern L (enter_call fh)) (\<lambda>v.
     bnd (set_global x v) (\<lambda>u. finally_exit L fh body)))"

subsection \<open>Subscripts\<close>

text \<open>
  numpy's answers to the three forms of \<^verbatim>\<open>a[i]\<close> the notebook uses on arrays: a
  one-dimensional array of integers as index (\<^verbatim>\<open>X[ind_train]\<close>), a slice (\<^verbatim>\<open>pred[0:10]\<close>)
  and a column (\<^verbatim>\<open>df.values[:,0]\<close>). A negative index counts from the end; an index out
  of range raises IndexError. The result is a new array with the element type of \<open>a\<close>
  (for a slice and a column numpy returns a view: the sharing is not modelled).
\<close>

definition lookup :: "obj list \<Rightarrow> val \<Rightarrow> obj option" where
  "lookup h v = (case v of Ref a \<Rightarrow> (if a < length h then Some (h ! a) else None) | _ \<Rightarrow> None)"

definition norm_index :: "nat \<Rightarrow> int \<Rightarrow> nat option" where
  "norm_index n i =
     (if 0 \<le> i \<and> i < int n then Some (nat i)
      else if - int n \<le> i \<and> i < 0 then Some (nat (int n + i))
      else None)"

fun as_ints :: "val list \<Rightarrow> int list option" where
  "as_ints [] = Some []"
| "as_ints (IntV i # vs) = (case as_ints vs of None \<Rightarrow> None | Some ks \<Rightarrow> Some (i # ks))"
| "as_ints (v # vs) = None"

fun take_items :: "val list \<Rightarrow> int list \<Rightarrow> exn + val list" where
  "take_items xs [] = Inr []"
| "take_items xs (i # ks) =
     (case norm_index (length xs) i of
        None \<Rightarrow> Inl IndexError
      | Some k \<Rightarrow> (case take_items xs ks of Inl e \<Rightarrow> Inl e | Inr ys \<Rightarrow> Inr (xs ! k # ys)))"

definition slice_bound :: "nat \<Rightarrow> int option \<Rightarrow> nat \<Rightarrow> nat" where
  "slice_bound n b d =
     (case b of None \<Rightarrow> d
      | Some i \<Rightarrow> (if i < 0 then nat (max 0 (int n + i)) else min n (nat i)))"

definition slice_items :: "val list \<Rightarrow> int option \<Rightarrow> int option \<Rightarrow> val list" where
  "slice_items xs lo hi =
     (let n = length xs; a = slice_bound n lo 0; b = slice_bound n hi n
      in take (b - a) (drop a xs))"

fun row_item :: "nat \<Rightarrow> val \<Rightarrow> val" where
  "row_item j (ListV r) = r ! j"
| "row_item j v = v"

fun row_of_width :: "nat \<Rightarrow> val \<Rightarrow> bool" where
  "row_of_width c (ListV r) = (length r = c)"
| "row_of_width c v = False"

text \<open>
  The index arrays of a subscript that is answered here: one-dimensional, of integer
  type, holding as many integers as its shape says.
\<close>

fun index_array :: "obj option \<Rightarrow> int list option" where
  "index_array (Some (NDArray DInt [k] ixs)) =
     (case as_ints ixs of
        None \<Rightarrow> None
      | Some ks \<Rightarrow> (if length ks = k then Some ks else None))"
| "index_array ob = None"

text \<open>
  \<open>index_items h dt sh xs i\<close> is numpy's answer to \<open>a[i]\<close> for the array \<open>a\<close> of type \<open>dt\<close>,
  shape \<open>sh\<close> and items \<open>xs\<close>, where it is one of the three forms, and \<open>None\<close> for every
  other index (arrays of more dimensions, of booleans or of another type, integers,
  other tuples, ...).
\<close>

fun index_items ::
  "obj list \<Rightarrow> dtype \<Rightarrow> nat list \<Rightarrow> val list \<Rightarrow> val \<Rightarrow> (exn + obj) option" where
  "index_items h dt (n # rest) xs (SliceV lo hi) =
     (let ys = slice_items xs lo hi in Some (Inr (NDArray dt (length ys # rest) ys)))"
| "index_items h dt (n # c # rest) xs (TupleV [SliceV None None, IntV j]) =
     (if list_all (row_of_width c) xs then
        (case norm_index c j of
           None \<Rightarrow> Some (Inl IndexError)
         | Some k \<Rightarrow> Some (Inr (NDArray dt (n # rest) (map (row_item k) xs))))
      else None)"
| "index_items h dt (n # rest) xs (Ref b) =
     (case index_array (lookup h (Ref b)) of
        None \<Rightarrow> None
      | Some ks \<Rightarrow> (case take_items xs ks of
                      Inl e \<Rightarrow> Some (Inl e)
                    | Inr ys \<Rightarrow> Some (Inr (NDArray dt (length ys # rest) ys))))"
| "index_items h dt sh xs i = None"

text \<open>Only an array that has as many items as its shape says is indexed here.\<close>

definition ndarray_getitem :: "obj list \<Rightarrow> val \<Rightarrow> val \<Rightarrow> (exn + obj) option" where
  "ndarray_getitem h r i =
     (case lookup h r of
        Some (NDArray dt sh xs) \<Rightarrow>
          (if take 1 sh = [length xs] then index_items h dt sh xs i else None)
      | _ \<Rightarrow> None)"

text \<open>
  \<^verbatim>\<open>e[i]\<close>: receiver and index are evaluated, then the receiver is subscripted. Where
  numpy's answer is known, the new array is allocated at the end of the heap; every
  other subscript (of an object that is not an array, or with another form of index) is
  answered by the library.
\<close>

definition getitem_call :: "val \<Rightarrow> val \<Rightarrow> call" where
  "getitem_call r i =
     \<lparr>kind = GetItem, root = None, attrs = [dunder_getitem], recv = Some r,
      args = [i], kwargs = []\<rparr>"

definition getitem :: "'x library \<Rightarrow> val \<Rightarrow> val \<Rightarrow> (val, 'x) prog" where
  "getitem L r i = (\<lambda>s.
     case ndarray_getitem (heap (world s)) r i of
       None \<Rightarrow> extern L (getitem_call r i) s
     | Some (Inl e) \<Rightarrow> answered (getitem_call r i) (Inl e) s
     | Some (Inr ob) \<Rightarrow>
         answered (getitem_call r i) (Inr (Ref (length (heap (world s)))))
           (world_update (heap_update (\<lambda>hp. hp @ [ob])) s))"

definition subscript :: "'x library \<Rightarrow> (val, 'x) prog \<Rightarrow> (val, 'x) prog \<Rightarrow> (val, 'x) prog" where
  "subscript L m ix = bnd m (\<lambda>r. bnd ix (\<lambda>i. getitem L r i))"

section \<open>The notebook\<close>

text \<open>Cells are numbered as in the file; the cells left out are markdown.\<close>

definition cell_2 :: "'x library \<Rightarrow> (unit, 'x) prog" where
  "cell_2 L = block [
     import_from L autoPyTorch
       [AutoNetClassification, AutoNetMultilabel, AutoNetRegression,
        AutoNetImageClassification, AutoNetImageClassificationMultipleDatasets]]"

definition cell_3 :: "'x library \<Rightarrow> (unit, 'x) prog" where
  "cell_3 L = block [
     import_as L pandas pd,
     import_as L numpy np,
     import_as L os os,
     import_as L openml openml,
     import_as L json json]"

definition cell_5 :: "'x library \<Rightarrow> (unit, 'x) prog" where
  "cell_5 L = block [
     assign autonet (call_global L AutoNetClassification [] []
       [(config_preset, lit (StrV ''tiny_cs'')),
        (result_logger_dir, lit (StrV ''logs/''))])]"

definition cell_7 :: "'x library \<Rightarrow> (unit, 'x) prog" where
  "cell_7 L = block [
     assign current_configuration
       (call_global L autonet [get_current_autonet_config] [] []),
     assign hyperparameter_search_space
       (call_global L autonet [get_hyperparameter_search_space] [] [])]"

text \<open>Cell 9 in two parts: the calls that load the dataset, and the split of it.\<close>

definition cell_9_load :: "'x library \<Rightarrow> (unit, 'x) prog list" where
  "cell_9_load L = [
     assign task
       (call_global L openml [tasks, get_task] [] [(task_id, lit (IntV 31))]),
     unpack2 L X y (call_global L task [get_X_and_y] [] []),
     unpack2 L ind_train ind_test
       (call_global L task [get_train_test_split_indices] [] [])]"

definition cell_9_split :: "'x library \<Rightarrow> (unit, 'x) prog list" where
  "cell_9_split L = [
     assign2 X_train Y_train
       (subscript L (name X) (name ind_train))
       (subscript L (name y) (name ind_train)),
     assign2 X_test Y_test
       (subscript L (name X) (name ind_test))
       (subscript L (name y) (name ind_test))]"

definition cell_9 :: "'x library \<Rightarrow> (unit, 'x) prog" where
  "cell_9 L = block (cell_9_load L @ cell_9_split L)"

definition cell_11 :: "'x library \<Rightarrow> (unit, 'x) prog" where
  "cell_11 L = block [
     assign autonet (call_global L AutoNetClassification [] []
       [(config_preset, lit (StrV ''tiny_cs'')),
        (result_logger_dir, lit (StrV ''logs/''))]),
     assign results_fit (call_global L autonet [fit] []
       [(X_train, name X_train),
        (Y_train, name Y_train),
        (validation_split, lit (FloatV ''0.3'')),
        (max_runtime, lit (IntV 300)),
        (min_budget, lit (IntV 60)),
        (max_budget, lit (IntV 100)),
        (refit, lit (BoolV True))]),
     with_open L (StrV ''logs/results_fit.json'') (StrV ''w'') file'
       (expr_stmt (call_global L json [dump] [name results_fit, name file'] []))]"

definition cell_13 :: "'x library \<Rightarrow> (unit, 'x) prog" where
  "cell_13 L = block [
     assign autonet_config (dict_display
       [(result_logger_dir, lit (StrV ''logs/'')),
        (budget_type, lit (StrV ''epochs'')),
        (log_level, lit (StrV ''info'')),
        (use_tensorboard_logger, lit (BoolV True)),
        (validation_split, lit (FloatV ''0.0''))]),
     assign autonet (call_star L AutoNetClassification autonet_config),
     assign hyperparameter_config
       (call_method L
          (call_method L
             (call_global L autonet [get_hyperparameter_search_space] [] [])
             sample_configuration [] [])
          get_dictionary [] []),
     assign results_refit (call_global L autonet [refit] []
       [(X_train, name X_train),
        (Y_train, name Y_train),
        (X_valid, lit NoneV),
        (Y_valid, lit NoneV),
        (hyperparameter_config, name hyperparameter_config),
        (autonet_config,
           call_global L autonet [get_current_autonet_config] [] []),
        (budget, lit (IntV 50))]),
     with_open L (StrV ''logs/results_refit.json'') (StrV ''w'') file'
       (expr_stmt (call_global L json [dump] [name results_refit, name file'] []))]"

definition cell_15 :: "'x library \<Rightarrow> (unit, 'x) prog" where
  "cell_15 L = block [
     assign score (call_global L autonet [score] []
       [(X_test, name X_test), (Y_test, name Y_test)]),
     assign pred (call_global L autonet [predict] [] [(X, name X_test)]),
     expr_stmt (call_builtin L print
       [lit (StrV ''Model prediction:''),
        subscript L (name pred) (lit (SliceV (Some 0) (Some 10)))]),
     expr_stmt (call_builtin L print [lit (StrV ''Accuracy score''), name score])]"

definition cell_17 :: "'x library \<Rightarrow> (unit, 'x) prog" where
  "cell_17 L = block [
     assign pytorch_model (call_global L autonet [get_pytorch_model] [] []),
     expr_stmt (call_builtin L print [name pytorch_model])]"

definition cell_20 :: "'x library \<Rightarrow> (unit, 'x) prog" where
  "cell_20 L = block [
     assign autonet_image_classification
       (call_global L AutoNetImageClassification [] []
          [(config_preset, lit (StrV ''full_cs'')),
           (result_logger_dir, lit (StrV ''logs/''))]),
     assign autonet_multi_image_classification
       (call_global L AutoNetImageClassificationMultipleDatasets [] []
          [(config_preset, lit (StrV ''tiny_cs'')),
           (result_logger_dir, lit (StrV ''logs/''))])]"

definition cell_22 :: "'x library \<Rightarrow> (unit, 'x) prog" where
  "cell_22 L = block [
     assign csv_dir (call_global L os [path, abspath]
       [lit (StrV ''../../datasets/example.csv'')] []),
     assign X_train (call_global L np [array] [list_display [name csv_dir]] []),
     assign Y_train (call_global L np [array] [list_display [lit (IntV 0)]] [])]"

definition cell_24 :: "'x library \<Rightarrow> (unit, 'x) prog" where
  "cell_24 L = block [
     assign df (call_global L pd [read_csv] [name csv_dir]
       [(header, lit NoneV)]),
     assign X_train
       (subscript L (attr L df values') (lit (TupleV [SliceV None None, IntV 0]))),
     assign Y_train
       (subscript L (attr L df values') (lit (TupleV [SliceV None None, IntV 1])))]"

definition cell_26 :: "'x library \<Rightarrow> (unit, 'x) prog" where
  "cell_26 L = block [
     expr_stmt (call_global L autonet_image_classification [fit] []
       [(X_train, name X_train),
        (Y_train, name Y_train),
        (images_shape, list_display [lit (IntV 3), lit (IntV 32), lit (IntV 32)]),
        (min_budget, lit (IntV 200)),
        (max_budget, lit (IntV 400)),
        (max_runtime, lit (IntV 600)),
        (save_checkpoints, lit (BoolV True)),
        (images_root_folders, list_display
           [call_global L os [path, abspath]
              [lit (StrV ''../../datasets/example_images'')] []])])]"

definition cell_28 :: "'x library \<Rightarrow> (unit, 'x) prog" where
  "cell_28 L = block [
     assign path_to_cifar_csv (call_global L os [path, abspath]
       [lit (StrV ''../../datasets/CIFAR10.csv'')] []),
     expr_stmt (call_global L autonet_image_classification [fit] []
       [(X_train,
           call_global L np [array] [list_display [name path_to_cifar_csv]] []),
        (Y_train, call_global L np [array] [list_display [lit (IntV 0)]] []),
        (min_budget, lit (IntV 600)),
        (max_budget, lit (IntV 900)),
        (max_runtime, lit (IntV 1800)),
        (default_dataset_download_dir, lit (StrV ''./datasets'')),
        (images_root_folders, list_display [lit (StrV ''./datasets'')])])]"

definition cell_30 :: "'x library \<Rightarrow> (unit, 'x) prog" where
  "cell_30 L = block [
     expr_stmt (call_global L autonet_multi_image_classification [fit] []
       [(X_train,
           call_global L np [array]
             [list_display [name path_to_cifar_csv, name csv_dir]] []),
        (Y_train, call_global L np [array] [list_display [lit (IntV 0)]] []),
        (min_budget, lit (IntV 1500)),
        (max_budget, lit (IntV 2000)),
        (max_runtime, lit (IntV 4000)),
        (default_dataset_download_dir, lit (StrV ''./datasets'')),
        (images_root_folders,
           list_display [lit (StrV ''./datasets''), lit (StrV ''./datasets/example_images'')])])]"

definition notebook :: "'x library \<Rightarrow> (unit, 'x) prog" where
  "notebook L = block [
     cell_2 L, cell_3 L, cell_5 L, cell_7 L, cell_9 L, cell_11 L, cell_13 L, cell_15 L,
     cell_17 L, cell_20 L, cell_22 L, cell_24 L, cell_26 L, cell_28 L, cell_30 L]"

section \<open>A library to run the notebook against\<close>

text \<open>
  A small stand-in for the libraries: four samples with two features, a split into
  three training samples and one test sample, a CSV table of two rows, a file that
  enters as itself, None from \<^verbatim>\<open>__exit__\<close>, \<^verbatim>\<open>print\<close> and \<^verbatim>\<open>json.dump\<close>, and a fresh
  opaque object as the answer to everything else.
\<close>

definition alloc :: "obj \<Rightarrow> 'x world \<Rightarrow> val \<times> 'x world" where
  "alloc ob w = (Ref (length (heap w)), heap_update (\<lambda>hp. hp @ [ob]) w)"

definition demo_X :: obj where
  "demo_X = NDArray DInt [4, 2]
     [ListV [IntV 6, IntV 1], ListV [IntV 48, IntV 2], ListV [IntV 12, IntV 4],
      ListV [IntV 42, IntV 2]]"

definition demo_y :: obj where
  "demo_y = NDArray DInt [4] [IntV 0, IntV 1, IntV 0, IntV 0]"

definition demo_table :: "val list" where
  "demo_table = [ListV [StrV ''cat.jpg'', IntV 0], ListV [StrV ''dog.jpg'', IntV 1]]"

definition demo_lib :: "unit library" where
  "demo_lib c w =
     (if kind c = Enter then
        (case recv c of Some fh \<Rightarrow> (Inr fh, w) | None \<Rightarrow> (Inr NoneV, w))
      else if kind c = Exit then (Inr NoneV, w)
      else if kind c = Call \<and> callee c \<in> {Some print, Some dump} then (Inr NoneV, w)
      else if kind c = Call \<and> callee c = Some get_X_and_y then
        (case alloc demo_X w of (a, w1) \<Rightarrow>
           (case alloc demo_y w1 of (b, w2) \<Rightarrow> (Inr (TupleV [a, b]), w2)))
      else if kind c = Call \<and> callee c = Some get_train_test_split_indices then
        (case alloc (NDArray DInt [3] [IntV 0, IntV 2, IntV (- 1)]) w of (a, w1) \<Rightarrow>
           (case alloc (NDArray DInt [1] [IntV 1]) w1 of (b, w2) \<Rightarrow>
              (Inr (TupleV [a, b]), w2)))
      else if kind c = GetAttr \<and> callee c = Some values' then
        (case alloc (NDArray DObject [2, 2] demo_table) w of (a, w1) \<Rightarrow> (Inr a, w1))
      else if kind c = Call \<and> callee c = Some predict then
        (case alloc (NDArray DFloat [1, 1] [ListV [FloatV ''0.'']]) w of
           (a, w1) \<Rightarrow> (Inr a, w1))
      else
        (case alloc Opaque w of (a, w1) \<Rightarrow> (Inr a, w1)))"

definition demo_world :: "unit world" where
  "demo_world = \<lparr>heap = [], ext = ()\<rparr>"

section \<open>Running a program\<close>

subsection \<open>Evaluation\<close>

lemma ret_apply: "ret v s = (Inr v, s)"
  by (simp add: ret_def)

lemma raise_apply: "raise e s = (Inl e, s)"
  by (simp add: raise_def)

lemma lift_apply: "lift r s = (r, s)"
  by (simp add: lift_def)

lemma bnd_apply:
  "bnd m f s = (case m s of (Inl e, s') \<Rightarrow> (Inl e, s') | (Inr v, s') \<Rightarrow> f v s')"
  by (simp add: bnd_def)

lemma name_apply:
  "name x s = (case globals s x of None \<Rightarrow> (Inl (NameError x), s) | Some v \<Rightarrow> (Inr v, s))"
  by (simp add: name_def)

lemmas comb_defs = lit_def assign_def unpack2_def assign2_def list_display_def
  dict_display_def expr_stmt_def call_global_def call_star_def call_method_def
  call_builtin_def attr_def import_module_def import_as_def import_from_def with_open_def
  subscript_def

lemmas call_defs = global_call_def method_call_def builtin_call_def attr_call_def
  import_call_def enter_call_def exit_call_def getitem_call_def iter_call_def

lemmas run_simps = ret_apply raise_apply lift_apply bnd_apply name_apply
  set_global_def[THEN fun_cong] extern_def[THEN fun_cong] answered_def[THEN fun_cong]
  getitem_def[THEN fun_cong] iterate_def finally_exit_def[THEN fun_cong] comb_defs Let_def

lemmas cell_defs = cell_2_def cell_3_def cell_5_def cell_7_def cell_9_def cell_9_load_def
  cell_9_split_def cell_11_def
  cell_13_def cell_15_def cell_17_def cell_20_def cell_22_def cell_24_def cell_26_def
  cell_28_def cell_30_def

lemmas cell_applies = cell_2_def[THEN fun_cong] cell_3_def[THEN fun_cong]
  cell_5_def[THEN fun_cong] cell_7_def[THEN fun_cong] cell_9_def[THEN fun_cong]
  cell_9_load_def cell_9_split_def
  cell_11_def[THEN fun_cong] cell_13_def[THEN fun_cong] cell_15_def[THEN fun_cong]
  cell_17_def[THEN fun_cong] cell_20_def[THEN fun_cong] cell_22_def[THEN fun_cong]
  cell_24_def[THEN fun_cong] cell_26_def[THEN fun_cong] cell_28_def[THEN fun_cong]
  cell_30_def[THEN fun_cong]

lemmas numpy_defs = ndarray_getitem_def lookup_def norm_index_def slice_items_def
  slice_bound_def

lemmas demo_simps = demo_lib_def demo_world_def init_def alloc_def callee_def demo_X_def
  demo_y_def demo_table_def call_defs numpy_defs

subsection \<open>What a normal return tells\<close>

lemma ret_okE:
  assumes "ret v s = (Inr a, s')"
  obtains "a = v" "s' = s"
  using assms by (simp add: ret_def)

lemma lift_okE:
  assumes "lift r s = (Inr a, s')"
  obtains "r = Inr a" "s' = s"
  using assms by (simp add: lift_def)

lemma bnd_okE:
  assumes "bnd m f s = (Inr b, s')"
  obtains a s1 where "m s = (Inr a, s1)" "f a s1 = (Inr b, s')"
  using assms by (auto simp: bnd_def split: prod.splits sum.splits)

lemma name_okE:
  assumes "name x s = (Inr v, s')"
  obtains "globals s x = Some v" "s' = s"
  using assms by (auto simp: name_def split: option.splits)

lemma set_global_okE:
  assumes "set_global x v s = (Inr u, s')"
  obtains "s' = globals_update (\<lambda>g. g(x \<mapsto> v)) s"
  using assms by (auto simp: set_global_def)

lemma extern_okE:
  assumes "extern L c s = (Inr v, s')"
  obtains w where "s' = trace_update (\<lambda>t. t @ [Event c (Inr v)]) (s\<lparr>world := w\<rparr>)"
  using assms by (auto simp: extern_def split: prod.splits)

lemma answered_okE:
  assumes "answered c r s = (Inr v, s')"
  obtains "r = Inr v" "s' = trace_update (\<lambda>t. t @ [Event c (Inr v)]) s"
  using assms by (auto simp: answered_def)

lemma getitem_okE:
  assumes "getitem L r i s = (Inr v, s')"
  obtains w where
    "s' = trace_update (\<lambda>t. t @ [Event (getitem_call r i) (Inr v)]) (s\<lparr>world := w\<rparr>)"
proof (cases "ndarray_getitem (heap (world s)) r i")
  case None
  with assms have "extern L (getitem_call r i) s = (Inr v, s')"
    by (simp add: getitem_def)
  then show ?thesis by (elim extern_okE) (rule that)
next
  case (Some a)
  show ?thesis
  proof (cases a)
    case (Inl e)
    with Some assms show ?thesis by (simp add: getitem_def answered_def)
  next
    case (Inr ob)
    with Some assms have
      "s' = trace_update (\<lambda>t. t @ [Event (getitem_call r i) (Inr v)])
              (s\<lparr>world := heap_update (\<lambda>hp. hp @ [ob]) (world s)\<rparr>)"
      by (auto simp: getitem_def answered_def)
    then show ?thesis by (rule that)
  qed
qed

lemma iterate_okE:
  assumes "iterate L v s = (Inr r, s')"
  obtains w where
    "s' = trace_update (\<lambda>t. t @ [Event (iter_call v) (Inr r)]) (s\<lparr>world := w\<rparr>)"
proof (cases "items_of v")
  case None
  with assms have "extern L (iter_call v) s = (Inr r, s')"
    by (simp add: iterate_def)
  then show ?thesis by (elim extern_okE) (rule that)
next
  case (Some a)
  with assms have
    "s' = trace_update (\<lambda>t. t @ [Event (iter_call v) (Inr r)]) (s\<lparr>world := world s\<rparr>)"
    by (auto simp: iterate_def answered_def)
  then show ?thesis by (rule that)
qed

lemma finally_exit_okE:
  assumes "finally_exit L fh body s = (Inr u, s')"
  obtains s1 v where "body s = (Inr u, s1)"
    "extern L (exit_call fh (Inr u)) s1 = (Inr v, s')"
  using assms by (auto simp: finally_exit_def split: prod.splits sum.splits)

lemmas ok_elims = bnd_okE ret_okE lift_okE name_okE set_global_okE extern_okE getitem_okE
  iterate_okE finally_exit_okE

lemmas unfold_cell = comb_defs block.simps eval_args.simps eval_kwargs.simps
  resolve.simps append.simps fst_conv snd_conv list.map

subsection \<open>The calls of a complete run, cell by cell\<close>

text \<open>
  When a cell returns normally, the operations it made are determined by the globals it
  started from and by the values they returned: \<open>cell_n_events g vs\<close> lists them,
  for the globals \<open>g\<close> and the returned values \<open>vs\<close> in the order of the operations, and
  \<open>cell_n_globals g vs\<close> gives the globals it leaves.
\<close>

definition value_of :: "event \<Rightarrow> val" where
  "value_of ev = (case result ev of Inr v \<Rightarrow> v | Inl e \<Rightarrow> NoneV)"

definition new_values :: "'x state \<Rightarrow> 'x state \<Rightarrow> val list" where
  "new_values s s' = map value_of (drop (length (trace s)) (trace s'))"

definition unpacked :: "val \<Rightarrow> val \<times> val" where
  "unpacked v = (case two_items v of Inr ab \<Rightarrow> ab | Inl e \<Rightarrow> (NoneV, NoneV))"

definition returned :: "call \<Rightarrow> val \<Rightarrow> event" where
  "returned c v = Event c (Inr v)"

type_synonym script =
  "((ident \<Rightarrow> val option) \<Rightarrow> val list \<Rightarrow> event list) \<times>
   ((ident \<Rightarrow> val option) \<Rightarrow> val list \<Rightarrow> ident \<Rightarrow> val option)"

definition follows :: "(unit, 'x) prog \<Rightarrow> script \<Rightarrow> bool" where
  "follows m sc =
     (\<forall>s u s'. m s = (Inr u, s') \<longrightarrow>
        trace s' = trace s @ fst sc (globals s) (new_values s s') \<and>
        globals s' = snd sc (globals s) (new_values s s'))"

lemma followsI:
  assumes "\<And>s u s'. m s = (Inr u, s') \<Longrightarrow>
     trace s' = trace s @ ev (globals s) (new_values s s') \<and>
     globals s' = gl (globals s) (new_values s s')"
  shows "follows m (ev, gl)"
  using assms by (simp add: follows_def)


definition cell_2_events :: "(ident \<Rightarrow> val option) \<Rightarrow> val list \<Rightarrow> event list" where
  "cell_2_events g vs = [
     returned (import_call autoPyTorch) (vs ! 0),
     returned (attr_call (Some autoPyTorch) [AutoNetClassification] (vs ! 0)) (vs ! 1),
     returned (attr_call (Some autoPyTorch) [AutoNetMultilabel] (vs ! 0)) (vs ! 2),
     returned (attr_call (Some autoPyTorch) [AutoNetRegression] (vs ! 0)) (vs ! 3),
     returned (attr_call (Some autoPyTorch) [AutoNetImageClassification] (vs ! 0)) (vs ! 4),
     returned (attr_call (Some autoPyTorch) [AutoNetImageClassificationMultipleDatasets] (vs ! 0)) (vs ! 5)]"

definition cell_2_globals :: "(ident \<Rightarrow> val option) \<Rightarrow> val list \<Rightarrow> ident \<Rightarrow> val option" where
  "cell_2_globals g vs = g(
     AutoNetClassification \<mapsto> vs ! 1,
     AutoNetMultilabel \<mapsto> vs ! 2,
     AutoNetRegression \<mapsto> vs ! 3,
     AutoNetImageClassification \<mapsto> vs ! 4,
     AutoNetImageClassificationMultipleDatasets \<mapsto> vs ! 5)"

lemmas script_simps = new_values_def value_of_def unpacked_def returned_def

lemma cell_2_run: "follows (cell_2 L) (cell_2_events, cell_2_globals)"
proof (rule followsI)
  fix s u s'
  assume "cell_2 L s = (Inr u, s')"
  then show "trace s' = trace s @ cell_2_events (globals s) (new_values s s') \<and>
             globals s' = cell_2_globals (globals s) (new_values s s')"
    unfolding cell_2_def unfold_cell
    apply (elim ok_elims)
    apply hypsubst
    apply (simp add: cell_2_events_def cell_2_globals_def script_simps)
    done
qed

definition cell_3_events :: "(ident \<Rightarrow> val option) \<Rightarrow> val list \<Rightarrow> event list" where
  "cell_3_events g vs = [
     returned (import_call pandas) (vs ! 0),
     returned (import_call numpy) (vs ! 1),
     returned (import_call os) (vs ! 2),
     returned (import_call openml) (vs ! 3),
     returned (import_call json) (vs ! 4)]"

definition cell_3_globals :: "(ident \<Rightarrow> val option) \<Rightarrow> val list \<Rightarrow> ident \<Rightarrow> val option" where
  "cell_3_globals g vs = g(
     pd \<mapsto> vs ! 0,
     np \<mapsto> vs ! 1,
     os \<mapsto> vs ! 2,
     openml \<mapsto> vs ! 3,
     json \<mapsto> vs ! 4)"

lemma cell_3_run: "follows (cell_3 L) (cell_3_events, cell_3_globals)"
proof (rule followsI)
  fix s u s'
  assume "cell_3 L s = (Inr u, s')"
  then show "trace s' = trace s @ cell_3_events (globals s) (new_values s s') \<and>
             globals s' = cell_3_globals (globals s) (new_values s s')"
    unfolding cell_3_def unfold_cell
    apply (elim ok_elims)
    apply hypsubst
    apply (simp add: cell_3_events_def cell_3_globals_def script_simps)
    done
qed

definition cell_5_events :: "(ident \<Rightarrow> val option) \<Rightarrow> val list \<Rightarrow> event list" where
  "cell_5_events g vs = [
     returned (global_call AutoNetClassification [] (the (g AutoNetClassification)) [] [(config_preset, StrV ''tiny_cs''), (result_logger_dir, StrV ''logs/'')]) (vs ! 0)]"

definition cell_5_globals :: "(ident \<Rightarrow> val option) \<Rightarrow> val list \<Rightarrow> ident \<Rightarrow> val option" where
  "cell_5_globals g vs = g(
     autonet \<mapsto> vs ! 0)"

lemma cell_5_run: "follows (cell_5 L) (cell_5_events, cell_5_globals)"
proof (rule followsI)
  fix s u s'
  assume "cell_5 L s = (Inr u, s')"
  then show "trace s' = trace s @ cell_5_events (globals s) (new_values s s') \<and>
             globals s' = cell_5_globals (globals s) (new_values s s')"
    unfolding cell_5_def unfold_cell
    apply (elim ok_elims)
    apply hypsubst
    apply (simp add: cell_5_events_def cell_5_globals_def script_simps)
    done
qed

definition cell_7_events :: "(ident \<Rightarrow> val option) \<Rightarrow> val list \<Rightarrow> event list" where
  "cell_7_events g vs = [
     returned (attr_call (Some autonet) [get_current_autonet_config] (the (g autonet))) (vs ! 0),
     returned (global_call autonet [get_current_autonet_config] (vs ! 0) [] []) (vs ! 1),
     returned (attr_call (Some autonet) [get_hyperparameter_search_space] (the (g autonet))) (vs ! 2),
     returned (global_call autonet [get_hyperparameter_search_space] (vs ! 2) [] []) (vs ! 3)]"

definition cell_7_globals :: "(ident \<Rightarrow> val option) \<Rightarrow> val list \<Rightarrow> ident \<Rightarrow> val option" where
  "cell_7_globals g vs = g(
     current_configuration \<mapsto> vs ! 1,
     hyperparameter_search_space \<mapsto> vs ! 3)"

lemma cell_7_run: "follows (cell_7 L) (cell_7_events, cell_7_globals)"
proof (rule followsI)
  fix s u s'
  assume "cell_7 L s = (Inr u, s')"
  then show "trace s' = trace s @ cell_7_events (globals s) (new_values s s') \<and>
             globals s' = cell_7_globals (globals s) (new_values s s')"
    unfolding cell_7_def unfold_cell
    apply (elim ok_elims)
    apply hypsubst
    apply (simp add: cell_7_events_def cell_7_globals_def script_simps)
    done
qed

definition cell_9_events :: "(ident \<Rightarrow> val option) \<Rightarrow> val list \<Rightarrow> event list" where
  "cell_9_events g vs = [
     returned (attr_call (Some openml) [tasks] (the (g openml))) (vs ! 0),
     returned (attr_call (Some openml) [tasks, get_task] (vs ! 0)) (vs ! 1),
     returned (global_call openml [tasks, get_task] (vs ! 1) [] [(task_id, IntV 31)]) (vs ! 2),
     returned (attr_call (Some task) [get_X_and_y] (vs ! 2)) (vs ! 3),
     returned (global_call task [get_X_and_y] (vs ! 3) [] []) (vs ! 4),
     returned (iter_call (vs ! 4)) (vs ! 5),
     returned (attr_call (Some task) [get_train_test_split_indices] (vs ! 2)) (vs ! 6),
     returned (global_call task [get_train_test_split_indices] (vs ! 6) [] []) (vs ! 7),
     returned (iter_call (vs ! 7)) (vs ! 8),
     returned (getitem_call (fst (unpacked (vs ! 5))) (fst (unpacked (vs ! 8)))) (vs ! 9),
     returned (getitem_call (snd (unpacked (vs ! 5))) (fst (unpacked (vs ! 8)))) (vs ! 10),
     returned (getitem_call (fst (unpacked (vs ! 5))) (snd (unpacked (vs ! 8)))) (vs ! 11),
     returned (getitem_call (snd (unpacked (vs ! 5))) (snd (unpacked (vs ! 8)))) (vs ! 12)]"

definition cell_9_globals :: "(ident \<Rightarrow> val option) \<Rightarrow> val list \<Rightarrow> ident \<Rightarrow> val option" where
  "cell_9_globals g vs = g(
     task \<mapsto> vs ! 2,
     X \<mapsto> (fst (unpacked (vs ! 5))),
     y \<mapsto> (snd (unpacked (vs ! 5))),
     ind_train \<mapsto> (fst (unpacked (vs ! 8))),
     ind_test \<mapsto> (snd (unpacked (vs ! 8))),
     X_train \<mapsto> vs ! 9,
     Y_train \<mapsto> vs ! 10,
     X_test \<mapsto> vs ! 11,
     Y_test \<mapsto> vs ! 12)"

lemma cell_9_run: "follows (cell_9 L) (cell_9_events, cell_9_globals)"
proof (rule followsI)
  fix s u s'
  assume "cell_9 L s = (Inr u, s')"
  then show "trace s' = trace s @ cell_9_events (globals s) (new_values s s') \<and>
             globals s' = cell_9_globals (globals s) (new_values s s')"
    unfolding cell_9_def cell_9_load_def cell_9_split_def unfold_cell
    apply (elim ok_elims)
    apply hypsubst
    apply (simp add: cell_9_events_def cell_9_globals_def script_simps)
    done
qed

definition cell_11_events :: "(ident \<Rightarrow> val option) \<Rightarrow> val list \<Rightarrow> event list" where
  "cell_11_events g vs = [
     returned (global_call AutoNetClassification [] (the (g AutoNetClassification)) [] [(config_preset, StrV ''tiny_cs''), (result_logger_dir, StrV ''logs/'')]) (vs ! 0),
     returned (attr_call (Some autonet) [fit] (vs ! 0)) (vs ! 1),
     returned (global_call autonet [fit] (vs ! 1) [] 
        [(X_train, the (g X_train)), (Y_train, the (g Y_train)),
         (validation_split, FloatV ''0.3''), (max_runtime, IntV 300),
         (min_budget, IntV 60), (max_budget, IntV 100), (refit, BoolV True)]) (vs ! 2),
     returned (builtin_call open' [StrV ''logs/results_fit.json'', StrV ''w'']) (vs ! 3),
     returned (enter_call (vs ! 3)) (vs ! 4),
     returned (attr_call (Some json) [dump] (the (g json))) (vs ! 5),
     returned (global_call json [dump] (vs ! 5) [vs ! 2, vs ! 4] []) (vs ! 6),
     returned (exit_call (vs ! 3) (Inr ())) (vs ! 7)]"

definition cell_11_globals :: "(ident \<Rightarrow> val option) \<Rightarrow> val list \<Rightarrow> ident \<Rightarrow> val option" where
  "cell_11_globals g vs = g(
     autonet \<mapsto> vs ! 0,
     results_fit \<mapsto> vs ! 2,
     file' \<mapsto> vs ! 4)"

lemma cell_11_run: "follows (cell_11 L) (cell_11_events, cell_11_globals)"
proof (rule followsI)
  fix s u s'
  assume "cell_11 L s = (Inr u, s')"
  then show "trace s' = trace s @ cell_11_events (globals s) (new_values s s') \<and>
             globals s' = cell_11_globals (globals s) (new_values s s')"
    unfolding cell_11_def unfold_cell
    apply (elim ok_elims)
    apply hypsubst
    apply (simp add: cell_11_events_def cell_11_globals_def script_simps)
    done
qed

definition autonet_config_dict :: "(ident \<times> val) list" where
  "autonet_config_dict =
     [(result_logger_dir, StrV ''logs/''), (budget_type, StrV ''epochs''),
      (log_level, StrV ''info''), (use_tensorboard_logger, BoolV True),
      (validation_split, FloatV ''0.0'')]"

definition cell_13_events :: "(ident \<Rightarrow> val option) \<Rightarrow> val list \<Rightarrow> event list" where
  "cell_13_events g vs = [
     returned (global_call AutoNetClassification [] (the (g AutoNetClassification)) [] autonet_config_dict) (vs ! 0),
     returned (attr_call (Some autonet) [get_hyperparameter_search_space] (vs ! 0)) (vs ! 1),
     returned (global_call autonet [get_hyperparameter_search_space] (vs ! 1) [] []) (vs ! 2),
     returned (attr_call None [sample_configuration] (vs ! 2)) (vs ! 3),
     returned (method_call sample_configuration (vs ! 3) [] []) (vs ! 4),
     returned (attr_call None [get_dictionary] (vs ! 4)) (vs ! 5),
     returned (method_call get_dictionary (vs ! 5) [] []) (vs ! 6),
     returned (attr_call (Some autonet) [refit] (vs ! 0)) (vs ! 7),
     returned (attr_call (Some autonet) [get_current_autonet_config] (vs ! 0)) (vs ! 8),
     returned (global_call autonet [get_current_autonet_config] (vs ! 8) [] []) (vs ! 9),
     returned (global_call autonet [refit] (vs ! 7) [] 
        [(X_train, the (g X_train)), (Y_train, the (g Y_train)),
         (X_valid, NoneV), (Y_valid, NoneV), (hyperparameter_config, vs ! 6),
         (autonet_config, vs ! 9), (budget, IntV 50)]) (vs ! 10),
     returned (builtin_call open' [StrV ''logs/results_refit.json'', StrV ''w'']) (vs ! 11),
     returned (enter_call (vs ! 11)) (vs ! 12),
     returned (attr_call (Some json) [dump] (the (g json))) (vs ! 13),
     returned (global_call json [dump] (vs ! 13) [vs ! 10, vs ! 12] []) (vs ! 14),
     returned (exit_call (vs ! 11) (Inr ())) (vs ! 15)]"

definition cell_13_globals :: "(ident \<Rightarrow> val option) \<Rightarrow> val list \<Rightarrow> ident \<Rightarrow> val option" where
  "cell_13_globals g vs = g(
     autonet_config \<mapsto> DictV autonet_config_dict,
     autonet \<mapsto> vs ! 0,
     hyperparameter_config \<mapsto> vs ! 6,
     results_refit \<mapsto> vs ! 10,
     file' \<mapsto> vs ! 12)"

lemma cell_13_run: "follows (cell_13 L) (cell_13_events, cell_13_globals)"
proof (rule followsI)
  fix s u s'
  assume "cell_13 L s = (Inr u, s')"
  then show "trace s' = trace s @ cell_13_events (globals s) (new_values s s') \<and>
             globals s' = cell_13_globals (globals s) (new_values s s')"
    unfolding cell_13_def unfold_cell
    apply (elim ok_elims)
    apply hypsubst
    apply (clarsimp simp: cell_13_events_def cell_13_globals_def script_simps autonet_config_dict_def)
    done
qed

definition cell_15_events :: "(ident \<Rightarrow> val option) \<Rightarrow> val list \<Rightarrow> event list" where
  "cell_15_events g vs = [
     returned (attr_call (Some autonet) [score] (the (g autonet))) (vs ! 0),
     returned (global_call autonet [score] (vs ! 0) [] [(X_test, the (g X_test)), (Y_test, the (g Y_test))]) (vs ! 1),
     returned (attr_call (Some autonet) [predict] (the (g autonet))) (vs ! 2),
     returned (global_call autonet [predict] (vs ! 2) [] [(X, the (g X_test))]) (vs ! 3),
     returned (getitem_call (vs ! 3) (SliceV (Some 0) (Some 10))) (vs ! 4),
     returned (builtin_call print [StrV ''Model prediction:'', vs ! 4]) (vs ! 5),
     returned (builtin_call print [StrV ''Accuracy score'', vs ! 1]) (vs ! 6)]"

definition cell_15_globals :: "(ident \<Rightarrow> val option) \<Rightarrow> val list \<Rightarrow> ident \<Rightarrow> val option" where
  "cell_15_globals g vs = g(
     score \<mapsto> vs ! 1,
     pred \<mapsto> vs ! 3)"

lemma cell_15_run: "follows (cell_15 L) (cell_15_events, cell_15_globals)"
proof (rule followsI)
  fix s u s'
  assume "cell_15 L s = (Inr u, s')"
  then show "trace s' = trace s @ cell_15_events (globals s) (new_values s s') \<and>
             globals s' = cell_15_globals (globals s) (new_values s s')"
    unfolding cell_15_def unfold_cell
    apply (elim ok_elims)
    apply hypsubst
    apply (simp add: cell_15_events_def cell_15_globals_def script_simps)
    done
qed

definition cell_17_events :: "(ident \<Rightarrow> val option) \<Rightarrow> val list \<Rightarrow> event list" where
  "cell_17_events g vs = [
     returned (attr_call (Some autonet) [get_pytorch_model] (the (g autonet))) (vs ! 0),
     returned (global_call autonet [get_pytorch_model] (vs ! 0) [] []) (vs ! 1),
     returned (builtin_call print [vs ! 1]) (vs ! 2)]"

definition cell_17_globals :: "(ident \<Rightarrow> val option) \<Rightarrow> val list \<Rightarrow> ident \<Rightarrow> val option" where
  "cell_17_globals g vs = g(
     pytorch_model \<mapsto> vs ! 1)"

lemma cell_17_run: "follows (cell_17 L) (cell_17_events, cell_17_globals)"
proof (rule followsI)
  fix s u s'
  assume "cell_17 L s = (Inr u, s')"
  then show "trace s' = trace s @ cell_17_events (globals s) (new_values s s') \<and>
             globals s' = cell_17_globals (globals s) (new_values s s')"
    unfolding cell_17_def unfold_cell
    apply (elim ok_elims)
    apply hypsubst
    apply (simp add: cell_17_events_def cell_17_globals_def script_simps)
    done
qed

definition cell_20_events :: "(ident \<Rightarrow> val option) \<Rightarrow> val list \<Rightarrow> event list" where
  "cell_20_events g vs = [
     returned (global_call AutoNetImageClassification [] (the (g AutoNetImageClassification)) [] [(config_preset, StrV ''full_cs''), (result_logger_dir, StrV ''logs/'')]) (vs ! 0),
     returned (global_call AutoNetImageClassificationMultipleDatasets [] 
        (the (g AutoNetImageClassificationMultipleDatasets)) [] [(config_preset, StrV ''tiny_cs''), (result_logger_dir, StrV ''logs/'')]) (vs ! 1)]"

definition cell_20_globals :: "(ident \<Rightarrow> val option) \<Rightarrow> val list \<Rightarrow> ident \<Rightarrow> val option" where
  "cell_20_globals g vs = g(
     autonet_image_classification \<mapsto> vs ! 0,
     autonet_multi_image_classification \<mapsto> vs ! 1)"

lemma cell_20_run: "follows (cell_20 L) (cell_20_events, cell_20_globals)"
proof (rule followsI)
  fix s u s'
  assume "cell_20 L s = (Inr u, s')"
  then show "trace s' = trace s @ cell_20_events (globals s) (new_values s s') \<and>
             globals s' = cell_20_globals (globals s) (new_values s s')"
    unfolding cell_20_def unfold_cell
    apply (elim ok_elims)
    apply hypsubst
    apply (simp add: cell_20_events_def cell_20_globals_def script_simps)
    done
qed

definition cell_22_events :: "(ident \<Rightarrow> val option) \<Rightarrow> val list \<Rightarrow> event list" where
  "cell_22_events g vs = [
     returned (attr_call (Some os) [path] (the (g os))) (vs ! 0),
     returned (attr_call (Some os) [path, abspath] (vs ! 0)) (vs ! 1),
     returned (global_call os [path, abspath] (vs ! 1) [StrV ''../../datasets/example.csv''] []) (vs ! 2),
     returned (attr_call (Some np) [array] (the (g np))) (vs ! 3),
     returned (global_call np [array] (vs ! 3) [ListV [vs ! 2]] []) (vs ! 4),
     returned (attr_call (Some np) [array] (the (g np))) (vs ! 5),
     returned (global_call np [array] (vs ! 5) [ListV [IntV 0]] []) (vs ! 6)]"

definition cell_22_globals :: "(ident \<Rightarrow> val option) \<Rightarrow> val list \<Rightarrow> ident \<Rightarrow> val option" where
  "cell_22_globals g vs = g(
     csv_dir \<mapsto> vs ! 2,
     X_train \<mapsto> vs ! 4,
     Y_train \<mapsto> vs ! 6)"

lemma cell_22_run: "follows (cell_22 L) (cell_22_events, cell_22_globals)"
proof (rule followsI)
  fix s u s'
  assume "cell_22 L s = (Inr u, s')"
  then show "trace s' = trace s @ cell_22_events (globals s) (new_values s s') \<and>
             globals s' = cell_22_globals (globals s) (new_values s s')"
    unfolding cell_22_def unfold_cell
    apply (elim ok_elims)
    apply hypsubst
    apply (simp add: cell_22_events_def cell_22_globals_def script_simps)
    done
qed

definition cell_24_events :: "(ident \<Rightarrow> val option) \<Rightarrow> val list \<Rightarrow> event list" where
  "cell_24_events g vs = [
     returned (attr_call (Some pd) [read_csv] (the (g pd))) (vs ! 0),
     returned (global_call pd [read_csv] (vs ! 0) [the (g csv_dir)] [(header, NoneV)]) (vs ! 1),
     returned (attr_call (Some df) [values'] (vs ! 1)) (vs ! 2),
     returned (getitem_call (vs ! 2) (TupleV [SliceV None None, IntV 0])) (vs ! 3),
     returned (attr_call (Some df) [values'] (vs ! 1)) (vs ! 4),
     returned (getitem_call (vs ! 4) (TupleV [SliceV None None, IntV 1])) (vs ! 5)]"

definition cell_24_globals :: "(ident \<Rightarrow> val option) \<Rightarrow> val list \<Rightarrow> ident \<Rightarrow> val option" where
  "cell_24_globals g vs = g(
     df \<mapsto> vs ! 1,
     X_train \<mapsto> vs ! 3,
     Y_train \<mapsto> vs ! 5)"

lemma cell_24_run: "follows (cell_24 L) (cell_24_events, cell_24_globals)"
proof (rule followsI)
  fix s u s'
  assume "cell_24 L s = (Inr u, s')"
  then show "trace s' = trace s @ cell_24_events (globals s) (new_values s s') \<and>
             globals s' = cell_24_globals (globals s) (new_values s s')"
    unfolding cell_24_def unfold_cell
    apply (elim ok_elims)
    apply hypsubst
    apply (simp add: cell_24_events_def cell_24_globals_def script_simps)
    done
qed

definition cell_26_events :: "(ident \<Rightarrow> val option) \<Rightarrow> val list \<Rightarrow> event list" where
  "cell_26_events g vs = [
     returned (attr_call (Some autonet_image_classification) [fit] (the (g autonet_image_classification))) (vs ! 0),
     returned (attr_call (Some os) [path] (the (g os))) (vs ! 1),
     returned (attr_call (Some os) [path, abspath] (vs ! 1)) (vs ! 2),
     returned (global_call os [path, abspath] (vs ! 2) [StrV ''../../datasets/example_images''] []) (vs ! 3),
     returned (global_call autonet_image_classification [fit] (vs ! 0) [] 
        [(X_train, the (g X_train)), (Y_train, the (g Y_train)),
         (images_shape, ListV [IntV 3, IntV 32, IntV 32]),
         (min_budget, IntV 200), (max_budget, IntV 400), (max_runtime, IntV 600),
         (save_checkpoints, BoolV True), (images_root_folders, ListV [vs ! 3])]) (vs ! 4)]"

definition cell_26_globals :: "(ident \<Rightarrow> val option) \<Rightarrow> val list \<Rightarrow> ident \<Rightarrow> val option" where
  "cell_26_globals g vs = g"

lemma cell_26_run: "follows (cell_26 L) (cell_26_events, cell_26_globals)"
proof (rule followsI)
  fix s u s'
  assume "cell_26 L s = (Inr u, s')"
  then show "trace s' = trace s @ cell_26_events (globals s) (new_values s s') \<and>
             globals s' = cell_26_globals (globals s) (new_values s s')"
    unfolding cell_26_def unfold_cell
    apply (elim ok_elims)
    apply hypsubst
    apply (simp add: cell_26_events_def cell_26_globals_def script_simps)
    done
qed

definition cell_28_events :: "(ident \<Rightarrow> val option) \<Rightarrow> val list \<Rightarrow> event list" where
  "cell_28_events g vs = [
     returned (attr_call (Some os) [path] (the (g os))) (vs ! 0),
     returned (attr_call (Some os) [path, abspath] (vs ! 0)) (vs ! 1),
     returned (global_call os [path, abspath] (vs ! 1) [StrV ''../../datasets/CIFAR10.csv''] []) (vs ! 2),
     returned (attr_call (Some autonet_image_classification) [fit] (the (g autonet_image_classification))) (vs ! 3),
     returned (attr_call (Some np) [array] (the (g np))) (vs ! 4),
     returned (global_call np [array] (vs ! 4) [ListV [vs ! 2]] []) (vs ! 5),
     returned (attr_call (Some np) [array] (the (g np))) (vs ! 6),
     returned (global_call np [array] (vs ! 6) [ListV [IntV 0]] []) (vs ! 7),
     returned (global_call autonet_image_classification [fit] (vs ! 3) [] 
        [(X_train, vs ! 5), (Y_train, vs ! 7),
         (min_budget, IntV 600), (max_budget, IntV 900), (max_runtime, IntV 1800),
         (default_dataset_download_dir, StrV ''./datasets''),
         (images_root_folders, ListV [StrV ''./datasets''])]) (vs ! 8)]"

definition cell_28_globals :: "(ident \<Rightarrow> val option) \<Rightarrow> val list \<Rightarrow> ident \<Rightarrow> val option" where
  "cell_28_globals g vs = g(
     path_to_cifar_csv \<mapsto> vs ! 2)"

lemma cell_28_run: "follows (cell_28 L) (cell_28_events, cell_28_globals)"
proof (rule followsI)
  fix s u s'
  assume "cell_28 L s = (Inr u, s')"
  then show "trace s' = trace s @ cell_28_events (globals s) (new_values s s') \<and>
             globals s' = cell_28_globals (globals s) (new_values s s')"
    unfolding cell_28_def unfold_cell
    apply (elim ok_elims)
    apply hypsubst
    apply (simp add: cell_28_events_def cell_28_globals_def script_simps)
    done
qed

definition cell_30_events :: "(ident \<Rightarrow> val option) \<Rightarrow> val list \<Rightarrow> event list" where
  "cell_30_events g vs = [
     returned (attr_call (Some autonet_multi_image_classification) [fit] (the (g autonet_multi_image_classification))) (vs ! 0),
     returned (attr_call (Some np) [array] (the (g np))) (vs ! 1),
     returned (global_call np [array] (vs ! 1) [ListV [the (g path_to_cifar_csv), the (g csv_dir)]] []) (vs ! 2),
     returned (attr_call (Some np) [array] (the (g np))) (vs ! 3),
     returned (global_call np [array] (vs ! 3) [ListV [IntV 0]] []) (vs ! 4),
     returned (global_call autonet_multi_image_classification [fit] (vs ! 0) [] 
        [(X_train, vs ! 2), (Y_train, vs ! 4),
         (min_budget, IntV 1500), (max_budget, IntV 2000), (max_runtime, IntV 4000),
         (default_dataset_download_dir, StrV ''./datasets''),
         (images_root_folders,
            ListV [StrV ''./datasets'', StrV ''./datasets/example_images''])]) (vs ! 5)]"

definition cell_30_globals :: "(ident \<Rightarrow> val option) \<Rightarrow> val list \<Rightarrow> ident \<Rightarrow> val option" where
  "cell_30_globals g vs = g"

lemma cell_30_run: "follows (cell_30 L) (cell_30_events, cell_30_globals)"
proof (rule followsI)
  fix s u s'
  assume "cell_30 L s = (Inr u, s')"
  then show "trace s' = trace s @ cell_30_events (globals s) (new_values s s') \<and>
             globals s' = cell_30_globals (globals s) (new_values s s')"
    unfolding cell_30_def unfold_cell
    apply (elim ok_elims)
    apply hypsubst
    apply (simp add: cell_30_events_def cell_30_globals_def script_simps)
    done
qed

subsection \<open>The calls of a complete run of the notebook\<close>

text \<open>
  The scripts of the cells, run one after the other: each starts from the globals the
  one before left. \<open>vss\<close> holds, cell by cell, the values the calls returned.
\<close>

primrec run_scripts ::
  "script list \<Rightarrow> (ident \<Rightarrow> val option) \<Rightarrow> val list list \<Rightarrow> event list \<times> (ident \<Rightarrow> val option)" where
  "run_scripts [] g vss = ([], g)"
| "run_scripts (sc # scs) g vss =
     (case run_scripts scs (snd sc g (hd vss)) (tl vss) of
        (es, g') \<Rightarrow> (fst sc g (hd vss) @ es, g'))"

lemma block_follows:
  assumes "list_all2 follows ms scs" and "block ms s = (Inr u, s')"
  shows "\<exists>vss. (trace s', globals s') =
           (case run_scripts scs (globals s) vss of (es, g) \<Rightarrow> (trace s @ es, g))"
  using assms
proof (induction ms scs arbitrary: s rule: list_all2_induct)
  case Nil
  then show ?case by (simp add: ret_def)
next
  case (Cons m ms sc scs)
  from Cons.prems obtain a s1 where m: "m s = (Inr a, s1)" and rest: "block ms s1 = (Inr u, s')"
    by (auto elim: bnd_okE)
  from Cons.hyps(1) m have t1: "trace s1 = trace s @ fst sc (globals s) (new_values s s1)"
    and g1: "globals s1 = snd sc (globals s) (new_values s s1)"
    by (auto simp: follows_def)
  from Cons.IH[OF rest] obtain vss where
    "(trace s', globals s') =
       (case run_scripts scs (globals s1) vss of (es, g) \<Rightarrow> (trace s1 @ es, g))" ..
  then have "(trace s', globals s') =
       (case run_scripts (sc # scs) (globals s) (new_values s s1 # vss) of
          (es, g) \<Rightarrow> (trace s @ es, g))"
    by (simp add: t1 g1 split: prod.splits)
  then show ?case ..
qed

definition cell_scripts :: "script list" where
  "cell_scripts = [
     (cell_2_events, cell_2_globals), (cell_3_events, cell_3_globals),
     (cell_5_events, cell_5_globals), (cell_7_events, cell_7_globals),
     (cell_9_events, cell_9_globals), (cell_11_events, cell_11_globals),
     (cell_13_events, cell_13_globals), (cell_15_events, cell_15_globals),
     (cell_17_events, cell_17_globals), (cell_20_events, cell_20_globals),
     (cell_22_events, cell_22_globals), (cell_24_events, cell_24_globals),
     (cell_26_events, cell_26_globals), (cell_28_events, cell_28_globals),
     (cell_30_events, cell_30_globals)]"

lemma notebook_follows:
  assumes "notebook L (init w) = (Inr u, s')"
  shows "\<exists>vss. (trace s', globals s') = run_scripts cell_scripts Map.empty vss"
proof -
  have "list_all2 follows
          [cell_2 L, cell_3 L, cell_5 L, cell_7 L, cell_9 L, cell_11 L, cell_13 L, cell_15 L,
           cell_17 L, cell_20 L, cell_22 L, cell_24 L, cell_26 L, cell_28 L, cell_30 L]
          cell_scripts"
    unfolding cell_scripts_def
    by (intro list.rel_intros cell_2_run cell_3_run cell_5_run cell_7_run cell_9_run
        cell_11_run cell_13_run cell_15_run cell_17_run cell_20_run cell_22_run cell_24_run
        cell_26_run cell_28_run cell_30_run)
  from block_follows[OF this assms[unfolded notebook_def]] show ?thesis
    by (auto simp: init_def split: prod.splits)
qed

lemmas script_defs = cell_scripts_def
  cell_2_events_def cell_2_globals_def cell_3_events_def cell_3_globals_def
  cell_5_events_def cell_5_globals_def cell_7_events_def cell_7_globals_def
  cell_9_events_def cell_9_globals_def cell_11_events_def cell_11_globals_def
  cell_13_events_def cell_13_globals_def cell_15_events_def cell_15_globals_def
  cell_17_events_def cell_17_globals_def cell_20_events_def cell_20_globals_def
  cell_22_events_def cell_22_globals_def cell_24_events_def cell_24_globals_def
  cell_26_events_def cell_26_globals_def cell_28_events_def cell_28_globals_def
  cell_30_events_def cell_30_globals_def

lemma demo_ok: "fst (notebook demo_lib (init demo_world)) = Inr ()"
  by (simp add: notebook_def run_simps cell_applies demo_simps)

lemma demo_run:
  "notebook demo_lib (init demo_world) = (Inr (), snd (notebook demo_lib (init demo_world)))"
  using demo_ok by (simp add: prod_eq_iff)
section \<open>The order of the flow\<close>

text \<open>
  The calls of a run, in the order they were made: for each call, the name its callee
  expression starts with (none when the callee is a method of the result of another
  call) and the attribute names that follow it.
\<close>

definition call_sequence :: "event list \<Rightarrow> (ident option \<times> ident list) list" where
  "call_sequence t =
     map (\<lambda>ev. (root (call_of ev), attrs (call_of ev)))
       (filter (\<lambda>ev. kind (call_of ev) = Call) t)"

definition complete_call_sequence :: "(ident option \<times> ident list) list" where
  "complete_call_sequence =
     [(Some AutoNetClassification, []),
      (Some autonet, [get_current_autonet_config]),
      (Some autonet, [get_hyperparameter_search_space]),
      (Some openml, [tasks, get_task]),
      (Some task, [get_X_and_y]),
      (Some task, [get_train_test_split_indices]),
      (Some AutoNetClassification, []),
      (Some autonet, [fit]),
      (Some open', []),
      (Some json, [dump]),
      (Some AutoNetClassification, []),
      (Some autonet, [get_hyperparameter_search_space]),
      (None, [sample_configuration]),
      (None, [get_dictionary]),
      (Some autonet, [get_current_autonet_config]),
      (Some autonet, [refit]),
      (Some open', []),
      (Some json, [dump]),
      (Some autonet, [score]),
      (Some autonet, [predict]),
      (Some print, []),
      (Some print, []),
      (Some autonet, [get_pytorch_model]),
      (Some print, []),
      (Some AutoNetImageClassification, []),
      (Some AutoNetImageClassificationMultipleDatasets, []),
      (Some os, [path, abspath]),
      (Some np, [array]),
      (Some np, [array]),
      (Some pd, [read_csv]),
      (Some os, [path, abspath]),
      (Some autonet_image_classification, [fit]),
      (Some os, [path, abspath]),
      (Some np, [array]),
      (Some np, [array]),
      (Some autonet_image_classification, [fit]),
      (Some np, [array]),
      (Some np, [array]),
      (Some autonet_multi_image_classification, [fit])]"

lemma trace_of_complete_run:
  assumes "notebook L (init w) = (Inr u, s')"
  shows "\<exists>vss. trace s' = fst (run_scripts cell_scripts Map.empty vss)"
proof -
  from notebook_follows[OF assms] obtain vss where
    "(trace s', globals s') = run_scripts cell_scripts Map.empty vss" ..
  then have "trace s' = fst (run_scripts cell_scripts Map.empty vss)"
    by (metis fst_conv)
  then show ?thesis ..
qed

lemma call_sequence_of_complete_run:
  assumes "notebook L (init w) = (Inr u, s')"
  shows "call_sequence (trace s') = complete_call_sequence"
proof -
  from trace_of_complete_run[OF assms] obtain vss where
    "trace s' = fst (run_scripts cell_scripts Map.empty vss)" ..
  then show ?thesis
    by (simp add: script_defs returned_def call_sequence_def call_defs
        complete_call_sequence_def)
qed

text \<open>
  The steps of the flow the specification names, and the calls that perform them:
  loading the dataset is the three openml calls, constructing is a call of one of the
  three classes, searching is \<^verbatim>\<open>fit\<close>, scoring is \<^verbatim>\<open>score\<close> or \<^verbatim>\<open>predict\<close>,
  materializing is \<^verbatim>\<open>get_pytorch_model\<close>.
\<close>

datatype step = Load | Construct | Search | Refit | Score | Materialize

definition step_of :: "call \<Rightarrow> step option" where
  "step_of c =
     (if kind c \<noteq> Call then None
      else if callee c \<in> {Some get_task, Some get_X_and_y, Some get_train_test_split_indices}
        then Some Load
      else if callee c \<in> {Some AutoNetClassification, Some AutoNetImageClassification,
                           Some AutoNetImageClassificationMultipleDatasets}
        then Some Construct
      else if callee c = Some fit then Some Search
      else if callee c = Some refit then Some Refit
      else if callee c \<in> {Some score, Some predict} then Some Score
      else if callee c = Some get_pytorch_model then Some Materialize
      else None)"

definition flow :: "event list \<Rightarrow> step list" where
  "flow t = List.map_filter (\<lambda>ev. step_of (call_of ev)) t"

primrec rank :: "step \<Rightarrow> nat" where
  "rank Load = 0"
| "rank Construct = 1"
| "rank Search = 2"
| "rank Refit = 3"
| "rank Score = 4"
| "rank Materialize = 5"

text \<open>
  The order as the specification gives it: the steps come in the order load, construct,
  search, refit, score, materialize, and the first of them is the load.
\<close>

definition in_spec_order :: "step list \<Rightarrow> bool" where
  "in_spec_order fl = (sorted (map rank fl) \<and> take 1 fl = [Load])"

definition complete_flow :: "step list" where
  "complete_flow =
     [Construct, Load, Load, Load, Construct, Search, Construct, Refit, Score, Score,
      Materialize, Construct, Construct, Search, Search, Search]"

lemma flow_of_complete_run:
  assumes "notebook L (init w) = (Inr u, s')"
  shows "flow (trace s') = complete_flow"
proof -
  from trace_of_complete_run[OF assms] obtain vss where
    "trace s' = fst (run_scripts cell_scripts Map.empty vss)" ..
  then show ?thesis
    by (simp add: script_defs returned_def flow_def map_filter_def step_of_def callee_def
        call_defs complete_flow_def)
qed

text \<open>
  C1, as amended. In every complete run of the notebook the calls are made in this
  order: \<^verbatim>\<open>AutoNetClassification\<close>, \<^verbatim>\<open>autonet.get_current_autonet_config\<close>,
  \<^verbatim>\<open>autonet.get_hyperparameter_search_space\<close>; \<^verbatim>\<open>openml.tasks.get_task\<close>,
  \<^verbatim>\<open>task.get_X_and_y\<close>, \<^verbatim>\<open>task.get_train_test_split_indices\<close>; \<^verbatim>\<open>AutoNetClassification\<close>,
  \<^verbatim>\<open>autonet.fit\<close>, \<^verbatim>\<open>open\<close>, \<^verbatim>\<open>json.dump\<close>; \<^verbatim>\<open>AutoNetClassification\<close>,
  \<^verbatim>\<open>autonet.get_hyperparameter_search_space\<close>, \<^verbatim>\<open>sample_configuration\<close> and
  \<^verbatim>\<open>get_dictionary\<close> on the result of the call before, \<^verbatim>\<open>autonet.get_current_autonet_config\<close>,
  \<^verbatim>\<open>autonet.refit\<close>, \<^verbatim>\<open>open\<close>, \<^verbatim>\<open>json.dump\<close>; \<^verbatim>\<open>autonet.score\<close>, \<^verbatim>\<open>autonet.predict\<close>,
  \<^verbatim>\<open>print\<close>, \<^verbatim>\<open>print\<close>; \<^verbatim>\<open>autonet.get_pytorch_model\<close>, \<^verbatim>\<open>print\<close>;
  \<^verbatim>\<open>AutoNetImageClassification\<close>, \<^verbatim>\<open>AutoNetImageClassificationMultipleDatasets\<close>;
  \<^verbatim>\<open>os.path.abspath\<close>, \<^verbatim>\<open>np.array\<close>, \<^verbatim>\<open>np.array\<close>; \<^verbatim>\<open>pd.read_csv\<close>; \<^verbatim>\<open>os.path.abspath\<close>,
  \<^verbatim>\<open>autonet_image_classification.fit\<close>; \<^verbatim>\<open>os.path.abspath\<close>, \<^verbatim>\<open>np.array\<close>, \<^verbatim>\<open>np.array\<close>,
  \<^verbatim>\<open>autonet_image_classification.fit\<close>; \<^verbatim>\<open>np.array\<close>, \<^verbatim>\<open>np.array\<close>,
  \<^verbatim>\<open>autonet_multi_image_classification.fit\<close>. So the three calls that load the dataset
  precede every \<^verbatim>\<open>fit\<close>, the first \<^verbatim>\<open>fit\<close> precedes \<^verbatim>\<open>refit\<close>, \<^verbatim>\<open>refit\<close>
  precedes \<^verbatim>\<open>score\<close>, \<^verbatim>\<open>score\<close> precedes \<^verbatim>\<open>predict\<close>, and both precede
  \<^verbatim>\<open>get_pytorch_model\<close>; but an AutoNetClassification is constructed and queried twice
  before the dataset is loaded, \<^verbatim>\<open>AutoNetClassification\<close> is called again between
  \<^verbatim>\<open>fit\<close> and \<^verbatim>\<open>refit\<close>, and \<^verbatim>\<open>get_pytorch_model\<close> is followed by the
  construction of the two image classifiers and three more calls of \<^verbatim>\<open>fit\<close>.
\<close>

theorem C1_calls_of_complete_run:
  assumes "notebook L (init w) = (Inr u, s')"
  shows "call_sequence (trace s') =
     [(Some AutoNetClassification, []),
      (Some autonet, [get_current_autonet_config]),
      (Some autonet, [get_hyperparameter_search_space]),
      (Some openml, [tasks, get_task]),
      (Some task, [get_X_and_y]),
      (Some task, [get_train_test_split_indices]),
      (Some AutoNetClassification, []),
      (Some autonet, [fit]),
      (Some open', []),
      (Some json, [dump]),
      (Some AutoNetClassification, []),
      (Some autonet, [get_hyperparameter_search_space]),
      (None, [sample_configuration]),
      (None, [get_dictionary]),
      (Some autonet, [get_current_autonet_config]),
      (Some autonet, [refit]),
      (Some open', []),
      (Some json, [dump]),
      (Some autonet, [score]),
      (Some autonet, [predict]),
      (Some print, []),
      (Some print, []),
      (Some autonet, [get_pytorch_model]),
      (Some print, []),
      (Some AutoNetImageClassification, []),
      (Some AutoNetImageClassificationMultipleDatasets, []),
      (Some os, [path, abspath]),
      (Some np, [array]),
      (Some np, [array]),
      (Some pd, [read_csv]),
      (Some os, [path, abspath]),
      (Some autonet_image_classification, [fit]),
      (Some os, [path, abspath]),
      (Some np, [array]),
      (Some np, [array]),
      (Some autonet_image_classification, [fit]),
      (Some np, [array]),
      (Some np, [array]),
      (Some autonet_multi_image_classification, [fit])]"
  using call_sequence_of_complete_run[OF assms] by (simp add: complete_call_sequence_def)

theorem C1_calls_of_complete_run_witness:
  "fst (notebook demo_lib (init demo_world)) = Inr () \<and>
   call_sequence (trace (snd (notebook demo_lib (init demo_world)))) = complete_call_sequence"
  using C1_calls_of_complete_run[OF demo_run] demo_ok
  by (simp add: complete_call_sequence_def)

text \<open>
  C1 as stated fails on the complete run against the stand-in library: its steps are not
  in the order of the specification, and the first of them is a construction.
\<close>

theorem C1_counterexample:
  "\<not> in_spec_order (flow (trace (snd (notebook demo_lib (init demo_world)))))"
  using flow_of_complete_run[OF demo_run]
  by (simp add: in_spec_order_def complete_flow_def)

section \<open>The operations the notebook makes\<close>

text \<open>
  The site of an operation: its kind and the expression it is made at. \<open>notebook_sites\<close>
  lists the sites of the notebook.
\<close>

definition site :: "call \<Rightarrow> kind \<times> ident option \<times> ident list" where
  "site c = (kind c, root c, attrs c)"

definition notebook_sites :: "(kind \<times> ident option \<times> ident list) list" where
  "notebook_sites = [
     (Import, Some autoPyTorch, []),
     (GetAttr, Some autoPyTorch, [AutoNetClassification]),
     (GetAttr, Some autoPyTorch, [AutoNetMultilabel]),
     (GetAttr, Some autoPyTorch, [AutoNetRegression]),
     (GetAttr, Some autoPyTorch, [AutoNetImageClassification]),
     (GetAttr, Some autoPyTorch, [AutoNetImageClassificationMultipleDatasets]),
     (Import, Some pandas, []), (Import, Some numpy, []), (Import, Some os, []),
     (Import, Some openml, []), (Import, Some json, []),
     (Call, Some AutoNetClassification, []),
     (Call, Some AutoNetImageClassification, []),
     (Call, Some AutoNetImageClassificationMultipleDatasets, []),
     (GetAttr, Some autonet, [get_current_autonet_config]),
     (Call, Some autonet, [get_current_autonet_config]),
     (GetAttr, Some autonet, [get_hyperparameter_search_space]),
     (Call, Some autonet, [get_hyperparameter_search_space]),
     (GetAttr, Some autonet, [fit]),
     (Call, Some autonet, [fit]),
     (GetAttr, Some autonet, [refit]),
     (Call, Some autonet, [refit]),
     (GetAttr, Some autonet, [score]),
     (Call, Some autonet, [score]),
     (GetAttr, Some autonet, [predict]),
     (Call, Some autonet, [predict]),
     (GetAttr, Some autonet, [get_pytorch_model]),
     (Call, Some autonet, [get_pytorch_model]),
     (GetAttr, Some autonet_image_classification, [fit]),
     (Call, Some autonet_image_classification, [fit]),
     (GetAttr, Some autonet_multi_image_classification, [fit]),
     (Call, Some autonet_multi_image_classification, [fit]),
     (GetAttr, None, [sample_configuration]),
     (Call, None, [sample_configuration]),
     (GetAttr, None, [get_dictionary]),
     (Call, None, [get_dictionary]),
     (GetAttr, Some openml, [tasks]),
     (GetAttr, Some openml, [tasks, get_task]),
     (Call, Some openml, [tasks, get_task]),
     (GetAttr, Some task, [get_X_and_y]),
     (Call, Some task, [get_X_and_y]),
     (GetAttr, Some task, [get_train_test_split_indices]),
     (Call, Some task, [get_train_test_split_indices]),
     (Iter, None, [dunder_iter]),
     (GetItem, None, [dunder_getitem]),
     (GetAttr, Some os, [path]),
     (GetAttr, Some os, [path, abspath]),
     (Call, Some os, [path, abspath]),
     (GetAttr, Some np, [array]),
     (Call, Some np, [array]),
     (GetAttr, Some pd, [read_csv]),
     (Call, Some pd, [read_csv]),
     (GetAttr, Some df, [values']),
     (Call, Some open', []),
     (Enter, None, [dunder_enter]),
     (GetAttr, Some json, [dump]),
     (Call, Some json, [dump]),
     (Exit, None, [dunder_exit]),
     (Call, Some print, [])]"

text \<open>\<open>calls_within A m\<close>: the program \<open>m\<close> makes only operations that satisfy \<open>A\<close>.\<close>

definition calls_within :: "(call \<Rightarrow> bool) \<Rightarrow> ('a, 'x) prog \<Rightarrow> bool" where
  "calls_within A m =
     (\<forall>s. list_all (\<lambda>ev. A (call_of ev)) (trace s) \<longrightarrow>
          list_all (\<lambda>ev. A (call_of ev)) (trace (snd (m s))))"

lemma cw_ret: "calls_within A (ret v)"
  by (simp add: calls_within_def ret_def)

lemma cw_lift: "calls_within A (lift r)"
  by (simp add: calls_within_def lift_def)

lemma cw_name: "calls_within A (name x)"
  by (simp add: calls_within_def name_def split: option.splits)

lemma cw_set_global: "calls_within A (set_global x v)"
  by (simp add: calls_within_def set_global_def)

lemma cw_bnd:
  fixes m :: "('a, 'x) prog" and f :: "'a \<Rightarrow> ('b, 'x) prog"
  assumes "calls_within A m" and "\<And>v. calls_within A (f v)"
  shows "calls_within A (bnd m f)"
  unfolding calls_within_def
proof (intro allI impI)
  fix s :: "'x state"
  assume pre: "list_all (\<lambda>ev. A (call_of ev)) (trace s)"
  obtain r s1 where ms: "m s = (r, s1)" by (cases "m s")
  with assms(1) pre have mid: "list_all (\<lambda>ev. A (call_of ev)) (trace s1)"
    by (auto simp: calls_within_def)
  show "list_all (\<lambda>ev. A (call_of ev)) (trace (snd (bnd m f s)))"
  proof (cases r)
    case (Inl e)
    with ms mid show ?thesis by (simp add: bnd_def)
  next
    case (Inr v)
    with assms(2)[of v] mid ms show ?thesis
      by (auto simp: calls_within_def bnd_def)
  qed
qed

lemma cw_extern: "A c \<Longrightarrow> calls_within A (extern L c)"
  by (simp add: calls_within_def extern_def split: prod.splits)

lemma cw_answered: "A c \<Longrightarrow> calls_within A (answered c r)"
  by (simp add: calls_within_def answered_def)

lemma cw_getitem: "A (getitem_call r i) \<Longrightarrow> calls_within A (getitem L r i)"
  by (simp add: calls_within_def getitem_def extern_def answered_def
      split: prod.splits sum.splits option.splits)

lemma cw_iterate: "A (iter_call v) \<Longrightarrow> calls_within A (iterate L v)"
  by (simp add: iterate_def cw_extern cw_answered split: option.splits)

lemma cw_finally_exit:
  fixes body :: "(unit, 'x) prog"
  assumes "calls_within A body" and "\<And>r. A (exit_call fh r)"
  shows "calls_within A (finally_exit L fh body)"
  unfolding calls_within_def
proof (intro allI impI)
  fix s :: "'x state"
  assume pre: "list_all (\<lambda>ev. A (call_of ev)) (trace s)"
  obtain r s1 where b: "body s = (r, s1)" by (cases "body s")
  with assms(1) pre have mid: "list_all (\<lambda>ev. A (call_of ev)) (trace s1)"
    by (auto simp: calls_within_def)
  with b assms(2)[of r]
  show "list_all (\<lambda>ev. A (call_of ev)) (trace (snd (finally_exit L fh body s)))"
    by (auto simp: finally_exit_def extern_def split: prod.splits sum.splits)
qed

lemmas cw_intros = cw_bnd cw_ret cw_lift cw_name cw_set_global cw_extern cw_getitem
  cw_iterate cw_finally_exit

lemma notebook_calls_within:
  "calls_within (\<lambda>c. site c \<in> set notebook_sites) (notebook L)"
  unfolding notebook_def cell_defs unfold_cell
  apply (intro cw_intros)
  apply (simp_all add: site_def call_defs notebook_sites_def)
  done

lemma sites_of_any_run:
  "list_all (\<lambda>ev. site (call_of ev) \<in> set notebook_sites) (trace (snd (notebook L (init w))))"
  using notebook_calls_within[of L] by (simp add: calls_within_def init_def)

text \<open>
  The six call signatures the specification names, the names the notebook binds AutoNet
  objects to, and the calls of methods of those objects.
\<close>

definition six_signatures :: "ident list" where
  "six_signatures =
     [fit, refit, score, predict, get_pytorch_model, get_hyperparameter_search_space]"

definition autonet_names :: "ident list" where
  "autonet_names = [autonet, autonet_image_classification, autonet_multi_image_classification]"

definition on_autonet :: "call \<Rightarrow> bool" where
  "on_autonet c = (kind c = Call \<and> root c \<in> Some ` set autonet_names)"

definition only_six :: "event list \<Rightarrow> bool" where
  "only_six t =
     list_all (\<lambda>ev. \<not> on_autonet (call_of ev) \<or>
                     callee (call_of ev) \<in> Some ` set six_signatures) t"

definition autonet_methods :: "event list \<Rightarrow> ident list list" where
  "autonet_methods t = map (\<lambda>ev. attrs (call_of ev)) (filter (\<lambda>ev. on_autonet (call_of ev)) t)"

definition complete_autonet_methods :: "ident list list" where
  "complete_autonet_methods =
     [[get_current_autonet_config], [get_hyperparameter_search_space], [fit],
      [get_hyperparameter_search_space], [get_current_autonet_config], [refit],
      [score], [predict], [get_pytorch_model], [fit], [fit], [fit]]"

lemma autonet_methods_of_complete_run:
  assumes "notebook L (init w) = (Inr u, s')"
  shows "autonet_methods (trace s') = complete_autonet_methods"
proof -
  from trace_of_complete_run[OF assms] obtain vss where
    "trace s' = fst (run_scripts cell_scripts Map.empty vss)" ..
  then show ?thesis
    by (simp add: script_defs returned_def autonet_methods_def on_autonet_def autonet_names_def
        call_defs complete_autonet_methods_def)
qed

lemma site_on_autonet:
  assumes "site c \<in> set notebook_sites" and "on_autonet c"
  shows "callee c \<in> Some ` set (six_signatures @ [get_current_autonet_config])"
  using assms
  by (auto simp: site_def notebook_sites_def on_autonet_def autonet_names_def callee_def
      six_signatures_def)

text \<open>
  C2, as amended. Every operation of every run, complete or not, is made at one of the
  sites of \<open>notebook_sites\<close>: the six imports and the five names read from autoPyTorch;
  the calls of the three classes; on \<open>autonet\<close>, the lookup and the call of
  \<^verbatim>\<open>get_current_autonet_config\<close>, \<^verbatim>\<open>get_hyperparameter_search_space\<close>, \<^verbatim>\<open>fit\<close>, \<^verbatim>\<open>refit\<close>,
  \<^verbatim>\<open>score\<close>, \<^verbatim>\<open>predict\<close> and \<^verbatim>\<open>get_pytorch_model\<close>; on the two image classifiers, the
  lookup and the call of \<^verbatim>\<open>fit\<close>; the lookup and the call of \<^verbatim>\<open>sample_configuration\<close>
  and of \<^verbatim>\<open>get_dictionary\<close> on the result of a call; the lookups \<^verbatim>\<open>openml.tasks\<close>,
  \<^verbatim>\<open>openml.tasks.get_task\<close> and the call of it; on \<open>task\<close>, the lookup and the call of
  \<^verbatim>\<open>get_X_and_y\<close> and of \<^verbatim>\<open>get_train_test_split_indices\<close>; the iteration of an
  unpacking; a subscript; the lookups \<^verbatim>\<open>os.path\<close>, \<^verbatim>\<open>os.path.abspath\<close> and the call of
  it; the lookup and the call of \<^verbatim>\<open>np.array\<close>, of \<^verbatim>\<open>pd.read_csv\<close> and of \<^verbatim>\<open>json.dump\<close>;
  the read of \<^verbatim>\<open>df.values\<close>; the calls of \<^verbatim>\<open>open\<close> and \<^verbatim>\<open>print\<close>; the \<^verbatim>\<open>__enter__\<close> and
  the \<^verbatim>\<open>__exit__\<close> of a \<^verbatim>\<open>with\<close> statement. In every run, a call made on one of the names
  \<open>autonet\<close>, \<open>autonet_image_classification\<close> and \<open>autonet_multi_image_classification\<close> is
  a call of one of the six named signatures or of \<^verbatim>\<open>get_current_autonet_config\<close>. In a
  complete run the calls made on these names are, in order:
  \<^verbatim>\<open>get_current_autonet_config\<close>, \<^verbatim>\<open>get_hyperparameter_search_space\<close>, \<^verbatim>\<open>fit\<close>,
  \<^verbatim>\<open>get_hyperparameter_search_space\<close>, \<^verbatim>\<open>get_current_autonet_config\<close>, \<^verbatim>\<open>refit\<close>,
  \<^verbatim>\<open>score\<close>, \<^verbatim>\<open>predict\<close>, \<^verbatim>\<open>get_pytorch_model\<close>, and three times \<^verbatim>\<open>fit\<close>.
\<close>

theorem C2_operations_of_the_notebook:
  "list_all (\<lambda>ev. site (call_of ev) \<in> set notebook_sites \<and>
                  (on_autonet (call_of ev) \<longrightarrow>
                     callee (call_of ev) \<in>
                       Some ` set (six_signatures @ [get_current_autonet_config])))
            (trace (snd (notebook L (init w)))) \<and>
   (fst (notebook L (init w)) = Inr () \<longrightarrow>
      autonet_methods (trace (snd (notebook L (init w)))) =
        [[get_current_autonet_config], [get_hyperparameter_search_space], [fit],
         [get_hyperparameter_search_space], [get_current_autonet_config], [refit],
         [score], [predict], [get_pytorch_model], [fit], [fit], [fit]])"
proof (intro conjI impI)
  show "list_all (\<lambda>ev. site (call_of ev) \<in> set notebook_sites \<and>
                  (on_autonet (call_of ev) \<longrightarrow>
                     callee (call_of ev) \<in>
                       Some ` set (six_signatures @ [get_current_autonet_config])))
            (trace (snd (notebook L (init w))))"
    using sites_of_any_run[of L w] site_on_autonet
    by (auto simp: list_all_iff)
next
  assume "fst (notebook L (init w)) = Inr ()"
  then have "notebook L (init w) = (Inr (), snd (notebook L (init w)))"
    by (simp add: prod_eq_iff)
  from autonet_methods_of_complete_run[OF this]
  show "autonet_methods (trace (snd (notebook L (init w)))) =
        [[get_current_autonet_config], [get_hyperparameter_search_space], [fit],
         [get_hyperparameter_search_space], [get_current_autonet_config], [refit],
         [score], [predict], [get_pytorch_model], [fit], [fit], [fit]]"
    by (simp add: complete_autonet_methods_def)
qed

theorem C2_operations_of_the_notebook_witness:
  "fst (notebook demo_lib (init demo_world)) = Inr () \<and>
   list_all (\<lambda>ev. site (call_of ev) \<in> set notebook_sites \<and>
                  (on_autonet (call_of ev) \<longrightarrow>
                     callee (call_of ev) \<in>
                       Some ` set (six_signatures @ [get_current_autonet_config])))
            (trace (snd (notebook demo_lib (init demo_world)))) \<and>
   autonet_methods (trace (snd (notebook demo_lib (init demo_world)))) =
        [[get_current_autonet_config], [get_hyperparameter_search_space], [fit],
         [get_hyperparameter_search_space], [get_current_autonet_config], [refit],
         [score], [predict], [get_pytorch_model], [fit], [fit], [fit]]"
  using C2_operations_of_the_notebook[of demo_lib demo_world] demo_ok by simp

text \<open>
  C2 as stated fails on the complete run against the stand-in library: the notebook
  calls \<^verbatim>\<open>get_current_autonet_config\<close> on \<open>autonet\<close>, which is none of the six.
\<close>

lemma only_six_methods:
  assumes "only_six t"
  shows "list_all (\<lambda>a. a = [] \<or> last a \<in> set six_signatures) (autonet_methods t)"
  using assms
  by (induction t)
    (auto simp: only_six_def autonet_methods_def on_autonet_def callee_def split: if_splits)

theorem C2_counterexample:
  "\<not> only_six (trace (snd (notebook demo_lib (init demo_world))))"
proof
  assume "only_six (trace (snd (notebook demo_lib (init demo_world))))"
  from only_six_methods[OF this] autonet_methods_of_complete_run[OF demo_run]
  show False
    by (simp add: complete_autonet_methods_def six_signatures_def)
qed

section \<open>Exceptions\<close>

text \<open>
  What the trace of a run looks like around a raised exception. \<open>ends_with P m\<close>: the
  operations of \<open>m\<close> all returned normally, except for a tail \<open>fs\<close> of the trace that is
  empty when \<open>m\<close> returns normally and satisfies \<open>P e\<close> when \<open>m\<close> raises \<open>e\<close>.

  A program without a \<^verbatim>\<open>with\<close> statement stops at the first operation that raises
  (\<open>plain_tail\<close>): it ends with the exception of that operation, or with an exception of
  the interpreter after operations that all returned. Around a \<^verbatim>\<open>with\<close> statement
  (\<open>fail_tail\<close>) the operation that raised can be followed by the \<^verbatim>\<open>__exit__\<close> of the
  file: if that returns, the run ends with the exception of the operation, and if it
  raises, with the exception of \<^verbatim>\<open>__exit__\<close>.
\<close>

definition ok_event :: "event \<Rightarrow> bool" where
  "ok_event ev = (case result ev of Inr v \<Rightarrow> True | Inl e \<Rightarrow> False)"

fun plain_tail :: "exn \<Rightarrow> event list \<Rightarrow> bool" where
  "plain_tail e [] = True"
| "plain_tail e [ev] = (result ev = Inl e)"
| "plain_tail e evs = False"

fun fail_tail :: "exn \<Rightarrow> event list \<Rightarrow> bool" where
  "fail_tail e [] = True"
| "fail_tail e [ev] = (result ev = Inl e)"
| "fail_tail e [ev, ex] =
     (kind (call_of ex) = Exit \<and> \<not> ok_event ev \<and>
      (result ex = Inl e \<or> (ok_event ex \<and> result ev = Inl e)))"
| "fail_tail e evs = False"

definition ends_with :: "(exn \<Rightarrow> event list \<Rightarrow> bool) \<Rightarrow> ('a, 'x) prog \<Rightarrow> bool" where
  "ends_with P m =
     (\<forall>s. \<exists>es fs. trace (snd (m s)) = trace s @ es @ fs \<and> list_all ok_event es \<and>
        (case fst (m s) of Inr v \<Rightarrow> fs = [] | Inl e \<Rightarrow> P e fs))"

lemma ends_withI:
  fixes m :: "('a, 'x) prog"
  assumes "\<And>s :: 'x state. \<exists>es fs. trace (snd (m s)) = trace s @ es @ fs \<and>
     list_all ok_event es \<and> (case fst (m s) of Inr v \<Rightarrow> fs = [] | Inl e \<Rightarrow> P e fs)"
  shows "ends_with P m"
  using assms by (simp add: ends_with_def)

lemma ends_withD:
  assumes "ends_with P m" and "m s = (r, s1)"
  obtains es fs where "trace s1 = trace s @ es @ fs" "list_all ok_event es"
    "case r of Inr v \<Rightarrow> fs = [] | Inl e \<Rightarrow> P e fs"
proof -
  from assms(1) obtain es fs where
    "trace (snd (m s)) = trace s @ es @ fs \<and> list_all ok_event es \<and>
     (case fst (m s) of Inr v \<Rightarrow> fs = [] | Inl e \<Rightarrow> P e fs)"
    unfolding ends_with_def by blast
  with assms(2) show ?thesis by (intro that[of es fs]) simp_all
qed

lemma plain_tail_cases:
  assumes "plain_tail e fs"
  obtains "fs = []" | ev where "fs = [ev]" "result ev = Inl e"
  using assms by (cases "(e, fs)" rule: plain_tail.cases) auto

lemma plain_tail_fail_tail: "plain_tail e fs \<Longrightarrow> fail_tail e fs"
  by (erule plain_tail_cases) auto

lemma plain_ends_with_fail:
  assumes "ends_with plain_tail m"
  shows "ends_with fail_tail m"
proof (rule ends_withI)
  fix s
  obtain r s1 where ms: "m s = (r, s1)" by (cases "m s")
  from ends_withD[OF assms ms] obtain es fs where
    t: "trace s1 = trace s @ es @ fs" and ok: "list_all ok_event es" and
    c: "case r of Inr v \<Rightarrow> fs = [] | Inl e \<Rightarrow> plain_tail e fs" by blast
  from c have "case r of Inr v \<Rightarrow> fs = [] | Inl e \<Rightarrow> fail_tail e fs"
    by (auto split: sum.splits intro: plain_tail_fail_tail)
  with t ok ms show "\<exists>es fs. trace (snd (m s)) = trace s @ es @ fs \<and> list_all ok_event es \<and>
        (case fst (m s) of Inr v \<Rightarrow> fs = [] | Inl e \<Rightarrow> fail_tail e fs)"
    by (intro exI[of _ es] exI[of _ fs]) simp
qed

lemma ew_quiet:
  fixes m :: "('a, 'x) prog"
  assumes "\<And>s. trace (snd (m s)) = trace s"
  shows "ends_with plain_tail m"
proof (rule ends_withI)
  fix s :: "'x state"
  show "\<exists>es fs. trace (snd (m s)) = trace s @ es @ fs \<and> list_all ok_event es \<and>
        (case fst (m s) of Inr v \<Rightarrow> fs = [] | Inl e \<Rightarrow> plain_tail e fs)"
    by (intro exI[of _ "[]"]) (simp add: assms split: sum.splits)
qed

lemma ew_ret: "ends_with plain_tail (ret v)"
  by (rule ew_quiet) (simp add: ret_def)

lemma ew_lift: "ends_with plain_tail (lift r)"
  by (rule ew_quiet) (simp add: lift_def)

lemma ew_name: "ends_with plain_tail (name x)"
  by (rule ew_quiet) (simp add: name_def split: option.splits)

lemma ew_set_global: "ends_with plain_tail (set_global x v)"
  by (rule ew_quiet) (simp add: set_global_def)

lemma ew_one:
  fixes m :: "(val, 'x) prog"
  assumes "\<And>s. \<exists>c. trace (snd (m s)) = trace s @ [Event c (fst (m s))]"
  shows "ends_with plain_tail m"
proof (rule ends_withI)
  fix s :: "'x state"
  from assms[of s] obtain c where
    t: "trace (snd (m s)) = trace s @ [Event c (fst (m s))]" ..
  show "\<exists>es fs. trace (snd (m s)) = trace s @ es @ fs \<and> list_all ok_event es \<and>
        (case fst (m s) of Inr v \<Rightarrow> fs = [] | Inl e \<Rightarrow> plain_tail e fs)"
  proof (cases "fst (m s)")
    case (Inl e)
    with t show ?thesis
      by (intro exI[of _ "[]"] exI[of _ "[Event c (Inl e)]"]) simp
  next
    case (Inr v)
    with t show ?thesis
      by (intro exI[of _ "[Event c (Inr v)]"] exI[of _ "[]"]) (simp add: ok_event_def)
  qed
qed

lemma ew_extern: "ends_with plain_tail (extern L c)"
  by (rule ew_one) (simp add: extern_def split: prod.splits)

lemma ew_answered: "ends_with plain_tail (answered c r)"
  by (rule ew_one) (simp add: answered_def)

lemma ew_getitem: "ends_with plain_tail (getitem L r i)"
  by (rule ew_one)
    (simp add: getitem_def extern_def answered_def split: prod.splits sum.splits option.splits)

lemma ew_iterate: "ends_with plain_tail (iterate L v)"
  by (simp add: iterate_def ew_extern ew_answered split: option.splits)

lemma ew_bnd:
  fixes m :: "('a, 'x) prog" and f :: "'a \<Rightarrow> ('b, 'x) prog"
  assumes "ends_with P m" and "\<And>v. ends_with P (f v)"
  shows "ends_with P (bnd m f)"
proof (rule ends_withI)
  fix s :: "'x state"
  obtain r s1 where ms: "m s = (r, s1)" by (cases "m s")
  from ends_withD[OF assms(1) ms] obtain es1 fs1 where
    t1: "trace s1 = trace s @ es1 @ fs1" and ok1: "list_all ok_event es1" and
    c1: "case r of Inr v \<Rightarrow> fs1 = [] | Inl e \<Rightarrow> P e fs1" by blast
  show "\<exists>es fs. trace (snd (bnd m f s)) = trace s @ es @ fs \<and> list_all ok_event es \<and>
        (case fst (bnd m f s) of Inr v \<Rightarrow> fs = [] | Inl e \<Rightarrow> P e fs)"
  proof (cases r)
    case (Inl e)
    with ms t1 ok1 c1 show ?thesis
      by (intro exI[of _ es1] exI[of _ fs1]) (simp add: bnd_def)
  next
    case (Inr v)
    with c1 have fs1: "fs1 = []" by simp
    obtain r2 s2 where fs: "f v s1 = (r2, s2)" by (cases "f v s1")
    from ends_withD[OF assms(2) fs] obtain es2 fs2 where
      t2: "trace s2 = trace s1 @ es2 @ fs2" and ok2: "list_all ok_event es2" and
      c2: "case r2 of Inr v \<Rightarrow> fs2 = [] | Inl e \<Rightarrow> P e fs2" by blast
    from t1 t2 fs1 have "trace s2 = trace s @ (es1 @ es2) @ fs2" by simp
    moreover from ok1 ok2 have "list_all ok_event (es1 @ es2)" by simp
    ultimately show ?thesis using c2 ms Inr fs
      by (intro exI[of _ "es1 @ es2"] exI[of _ fs2]) (simp add: bnd_def)
  qed
qed

lemma ew_finally_exit:
  fixes body :: "(unit, 'x) prog"
  assumes "ends_with plain_tail body"
  shows "ends_with fail_tail (finally_exit L fh body)"
proof (rule ends_withI)
  fix s :: "'x state"
  obtain r s1 where b: "body s = (r, s1)" by (cases "body s")
  from ends_withD[OF assms b] obtain es fs where
    t1: "trace s1 = trace s @ es @ fs" and ok1: "list_all ok_event es" and
    c1: "case r of Inr v \<Rightarrow> fs = [] | Inl e \<Rightarrow> plain_tail e fs" by blast
  obtain rx w where lx: "L (exit_call fh r) (world s1) = (rx, w)"
    by (cases "L (exit_call fh r) (world s1)")
  define ex where "ex = Event (exit_call fh r) rx"
  have kx: "kind (call_of ex) = Exit" by (simp add: ex_def exit_call_def)
  have res: "finally_exit L fh body s =
      (case rx of Inl e2 \<Rightarrow> Inl e2 | Inr v \<Rightarrow> r,
       trace_update (\<lambda>t. t @ [ex]) (s1\<lparr>world := w\<rparr>))"
    using b lx by (simp add: finally_exit_def extern_def ex_def split: sum.splits)
  have tr: "trace (snd (finally_exit L fh body s)) = trace s @ es @ fs @ [ex]"
    using res t1 by simp
  show "\<exists>es fs. trace (snd (finally_exit L fh body s)) = trace s @ es @ fs \<and>
        list_all ok_event es \<and>
        (case fst (finally_exit L fh body s) of Inr v \<Rightarrow> fs = [] | Inl e \<Rightarrow> fail_tail e fs)"
  proof (cases rx)
    case (Inl e2)
    then have out: "fst (finally_exit L fh body s) = Inl e2" using res by simp
    have rex: "result ex = Inl e2" by (simp add: ex_def Inl)
    show ?thesis
    proof (cases r)
      case (Inr u)
      with c1 have "fs = []" by simp
      with tr have "trace (snd (finally_exit L fh body s)) = trace s @ es @ [ex]" by simp
      with ok1 out rex show ?thesis by (intro exI[of _ es] exI[of _ "[ex]"]) simp
    next
      case (Inl e)
      with c1 have "plain_tail e fs" by simp
      then show ?thesis
      proof (cases rule: plain_tail_cases)
        case 1
        with tr have "trace (snd (finally_exit L fh body s)) = trace s @ es @ [ex]" by simp
        with ok1 out rex show ?thesis by (intro exI[of _ es] exI[of _ "[ex]"]) simp
      next
        case (2 ev)
        with tr have "trace (snd (finally_exit L fh body s)) = trace s @ es @ [ev, ex]"
          by simp
        moreover have "fail_tail e2 [ev, ex]"
          using 2 kx rex by (simp add: ok_event_def)
        ultimately show ?thesis using ok1 out
          by (intro exI[of _ es] exI[of _ "[ev, ex]"]) simp
      qed
    qed
  next
    case (Inr v)
    then have out: "fst (finally_exit L fh body s) = r" using res by simp
    have okx: "ok_event ex" by (simp add: ex_def Inr ok_event_def)
    show ?thesis
    proof (cases r)
      case r: (Inr u)
      with c1 have "fs = []" by simp
      with tr have "trace (snd (finally_exit L fh body s)) = trace s @ (es @ [ex]) @ []"
        by simp
      moreover have "list_all ok_event (es @ [ex])" using ok1 okx by simp
      ultimately show ?thesis using out r
        by (intro exI[of _ "es @ [ex]"] exI[of _ "[]"]) simp
    next
      case r: (Inl e)
      with c1 have "plain_tail e fs" by simp
      then show ?thesis
      proof (cases rule: plain_tail_cases)
        case 1
        with tr have "trace (snd (finally_exit L fh body s)) = trace s @ (es @ [ex]) @ []"
          by simp
        moreover have "list_all ok_event (es @ [ex])" using ok1 okx by simp
        ultimately show ?thesis using out r
          by (intro exI[of _ "es @ [ex]"] exI[of _ "[]"]) simp
      next
        case (2 ev)
        with tr have "trace (snd (finally_exit L fh body s)) = trace s @ es @ [ev, ex]"
          by simp
        moreover have "fail_tail e [ev, ex]"
          using 2 kx okx by (simp add: ok_event_def)
        ultimately show ?thesis using ok1 out r
          by (intro exI[of _ es] exI[of _ "[ev, ex]"]) simp
      qed
    qed
  qed
qed

lemmas ew_leaves = ew_ret ew_lift ew_name ew_set_global ew_extern ew_getitem ew_iterate

lemmas ew_intros = ew_bnd ew_finally_exit ew_leaves[THEN plain_ends_with_fail] ew_leaves

lemma notebook_ends_with: "ends_with fail_tail (notebook L)"
  unfolding notebook_def cell_defs unfold_cell
  by (intro ew_intros)

text \<open>
  The claim as the specification states it: every exception that an operation raised is
  the exception the run ends with. \<open>faulty_lib\<close> is the stand-in library with a
  \<^verbatim>\<open>json.dump\<close> that raises and a file that then fails to close.
\<close>

definition raised_reaches_top :: "(exn + unit) \<times> 'x state \<Rightarrow> bool" where
  "raised_reaches_top rs =
     list_all (\<lambda>ev. case result ev of Inr v \<Rightarrow> True | Inl e \<Rightarrow> fst rs = Inl e)
       (trace (snd rs))"

definition faulty_lib :: "unit library" where
  "faulty_lib c w =
     (if kind c = Call \<and> callee c = Some dump then (Inl (Raised ''TypeError''), w)
      else if kind c = Exit then (Inl (Raised ''OSError''), w)
      else demo_lib c w)"

text \<open>
  C3, as amended. In every run of the notebook, against every library, an operation
  that raises ends the run: every operation before it returned normally, and no
  operation is made after it except, when it stands in a \<^verbatim>\<open>with\<close> statement, the
  \<^verbatim>\<open>__exit__\<close> of the file. The run then ends with the exception of that operation,
  unchanged, unless that \<^verbatim>\<open>__exit__\<close> raises too: then the run ends with the exception
  of \<^verbatim>\<open>__exit__\<close>. In a run that completes no operation has raised.
\<close>

theorem C3_exceptions_of_the_notebook:
  "\<exists>es fs. trace (snd (notebook L (init w))) = es @ fs \<and> list_all ok_event es \<and>
     (case fst (notebook L (init w)) of Inr u \<Rightarrow> fs = [] | Inl e \<Rightarrow> fail_tail e fs)"
proof -
  from notebook_ends_with[of L] obtain es fs where
    "trace (snd (notebook L (init w))) = trace (init w) @ es @ fs \<and> list_all ok_event es \<and>
     (case fst (notebook L (init w)) of Inr u \<Rightarrow> fs = [] | Inl e \<Rightarrow> fail_tail e fs)"
    unfolding ends_with_def by blast
  then show ?thesis
    by (intro exI[of _ es] exI[of _ fs]) (simp add: init_def)
qed

text \<open>
  C3 as stated fails against \<open>faulty_lib\<close>: the run ends with the exception of
  \<^verbatim>\<open>__exit__\<close>, not with that of \<^verbatim>\<open>json.dump\<close>.
\<close>

theorem C3_counterexample:
  "\<not> raised_reaches_top (notebook faulty_lib (init demo_world))"
  by (simp add: raised_reaches_top_def notebook_def run_simps cell_applies faulty_lib_def
      demo_simps)

end
